theory Spec2Isabelle
  imports Main
begin

section \<open>Python strings\<close>

text \<open>
  Strings are \<^typ>\<open>string\<close>. The functions below are the methods of Python's \<open>str\<close> that
  the pipeline calls, restricted to the ASCII range for letter case and white space.
\<close>

definition lower_char :: "char \<Rightarrow> char" where
  "lower_char c =
     (case map_of (zip ''ABCDEFGHIJKLMNOPQRSTUVWXYZ'' ''abcdefghijklmnopqrstuvwxyz'') c of
        Some d \<Rightarrow> d
      | None \<Rightarrow> c)"

definition lower :: "string \<Rightarrow> string" where
  "lower s = map lower_char s"

text \<open>\<open>s.startswith(p)\<close>\<close>

fun startswith :: "string \<Rightarrow> string \<Rightarrow> bool" where
  "startswith s [] = True"
| "startswith [] (p # ps) = False"
| "startswith (c # cs) (p # ps) = (c = p \<and> startswith cs ps)"

text \<open>\<open>sub in s\<close>\<close>

fun in_str :: "string \<Rightarrow> string \<Rightarrow> bool" where
  "in_str sub [] = (sub = [])"
| "in_str sub (c # cs) = (startswith (c # cs) sub \<or> in_str sub cs)"

text \<open>
  \<open>s.replace(old, new)\<close>: occurrences are found from the left and do not overlap. The
  counter of \<open>replace_from\<close> is the number of characters of a match still to be skipped.
\<close>

fun replace_from :: "string \<Rightarrow> string \<Rightarrow> nat \<Rightarrow> string \<Rightarrow> string" where
  "replace_from old new k [] = []"
| "replace_from old new k (c # cs) =
     (if 0 < k then replace_from old new (k - 1) cs
      else if startswith (c # cs) old then new @ replace_from old new (length old - 1) cs
      else c # replace_from old new 0 cs)"

definition replace :: "string \<Rightarrow> string \<Rightarrow> string \<Rightarrow> string" where
  "replace old new s =
     (if old = [] then new @ concat (map (\<lambda>c. c # new) s) else replace_from old new 0 s)"

text \<open>\<open>s.split(c)\<close> for a separator of one character.\<close>

fun split :: "char \<Rightarrow> string \<Rightarrow> string list" where
  "split sep [] = [[]]"
| "split sep (c # cs) =
     (if c = sep then [] # split sep cs
      else (case split sep cs of w # ws \<Rightarrow> (c # w) # ws | [] \<Rightarrow> [[c]]))"

definition is_space :: "char \<Rightarrow> bool" where
  "is_space c \<longleftrightarrow> c \<in> set [CHR '' '', CHR 0x09, CHR 0x0A, CHR 0x0B, CHR 0x0C, CHR 0x0D,
                              CHR 0x1C, CHR 0x1D, CHR 0x1E, CHR 0x1F]"

definition rstrip_chars :: "char list \<Rightarrow> string \<Rightarrow> string" where
  "rstrip_chars cs s = rev (dropWhile (\<lambda>c. c \<in> set cs) (rev s))"

definition strip :: "string \<Rightarrow> string" where
  "strip s = rev (dropWhile is_space (rev (dropWhile is_space s)))"

text \<open>Truthiness of an optional string: \<open>None\<close> and the empty string are false.\<close>

fun truthy :: "string option \<Rightarrow> bool" where
  "truthy None = False"
| "truthy (Some s) = (s \<noteq> [])"

section \<open>ElementTree elements\<close>

text \<open>
  An element as \<open>xml.etree.ElementTree\<close> holds it after parsing: tag, attributes, the text
  before the first child, and the children. The standard parser drops comments. Tail text
  is left out: none of the modelled functions reads it.
\<close>

datatype etree =
  Element (tag: string) (attrib: "(string \<times> string) list") (etext: "string option")
    (children: "etree list")

datatype error = ValueError | TypeError

text \<open>
  Elements are identified by their position: a path is the list of child indices leading
  from an element down to one of its descendants. \<open>first_path P e\<close> is the first element
  in document order (\<open>e.iter()\<close>) that satisfies \<open>P\<close>.
\<close>

fun first_path :: "(etree \<Rightarrow> bool) \<Rightarrow> etree \<Rightarrow> nat list option"
  and first_path_list :: "(etree \<Rightarrow> bool) \<Rightarrow> nat \<Rightarrow> etree list \<Rightarrow> nat list option" where
  "first_path P (Element t a x cs) =
     (if P (Element t a x cs) then Some [] else first_path_list P 0 cs)"
| "first_path_list P i [] = None"
| "first_path_list P i (c # cs) =
     (case first_path P c of
        Some p \<Rightarrow> Some (i # p)
      | None \<Rightarrow> first_path_list P (Suc i) cs)"

fun get_at :: "etree \<Rightarrow> nat list \<Rightarrow> etree" where
  "get_at e [] = e"
| "get_at e (i # p) = get_at (children e ! i) p"

fun update_at :: "(etree \<Rightarrow> etree) \<Rightarrow> nat list \<Rightarrow> etree \<Rightarrow> etree" where
  "update_at f [] e = f e"
| "update_at f (i # p) (Element t a x cs) = Element t a x (cs[i := update_at f p (cs ! i)])"

fun valid_path :: "etree \<Rightarrow> nat list \<Rightarrow> bool" where
  "valid_path e [] = True"
| "valid_path e (i # p) = (i < length (children e) \<and> valid_path (children e ! i) p)"

text \<open>\<open>elem.find('.//name')\<close>: the first descendant with that tag, the element itself excluded.\<close>

definition find_path :: "string \<Rightarrow> etree \<Rightarrow> nat list option" where
  "find_path name elem = first_path_list (\<lambda>e. tag e = name) 0 (children elem)"

definition find :: "string \<Rightarrow> etree \<Rightarrow> etree option" where
  "find name elem = map_option (get_at elem) (find_path name elem)"

text \<open>\<open>elem.get(key)\<close>\<close>

definition get_attr :: "etree \<Rightarrow> string \<Rightarrow> string option" where
  "get_attr elem key = map_of (attrib elem) key"

text \<open>Document order, \<open>elem.iter()\<close>.\<close>

fun iter :: "etree \<Rightarrow> etree list" where
  "iter (Element t a x cs) = Element t a x cs # concat (map iter cs)"

section \<open>Exceptional-Value Corrector (\<open>sdc_validator.py\<close>)\<close>

text \<open>\<open>SDCValidator._choose_ev_for_error\<close>\<close>

definition choose_ev_for_error :: "string \<Rightarrow> string" where
  "choose_ev_for_error error_msg =
     (let error_lower = lower error_msg in
      if \<exists>word \<in> set [''required'', ''missing'', ''mandatory'']. in_str word error_lower
        then ''NotPerformed''
      else if \<exists>word \<in> set [''type'', ''format'', ''pattern'']. in_str word error_lower
        then ''NoInformation''
      else if \<exists>word \<in> set [''range'', ''constraint'', ''bounds'', ''limit'']. in_str word error_lower
        then ''Unknown''
      else if \<exists>word \<in> set [''refused'', ''declined'']. in_str word error_lower
        then ''Refused''
      else if \<exists>word \<in> set [''not applicable'', ''n/a'']. in_str word error_lower
        then ''NotApplicable''
      else ''NoInformation'')"

text \<open>\<open>SDCValidator._find_element_by_ct_id\<close>, returning the position of the element.\<close>

definition find_element_by_ct_id :: "etree \<Rightarrow> string \<Rightarrow> nat list option" where
  "find_element_by_ct_id tree ct_id = first_path (\<lambda>e. get_attr e ''ct-id'' = Some ct_id) tree"

text \<open>
  The body of the loop of \<open>auto_correct_with_evs\<close> for one located element. The label is
  the text of the first \<open>label\<close> descendant (which may be \<open>None\<close>), or the ct_id when there
  is none. \<open>elem.remove(value_elem)\<close> removes a direct child and raises \<open>ValueError\<close> when
  the element found by \<open>find('.//value')\<close> lies deeper.
\<close>

definition correct_component :: "string \<Rightarrow> string \<Rightarrow> etree \<Rightarrow> error + (etree \<times> string option)" where
  "correct_component component_ct_id error_msg elem =
     (let field_label = (case find ''label'' elem of
                           Some label_elem \<Rightarrow> etext label_elem
                         | None \<Rightarrow> Some component_ct_id);
          removed = (case find_path ''value'' elem of
                       None \<Rightarrow> Inr (children elem)
                     | Some [] \<Rightarrow> Inl ValueError
                     | Some [i] \<Rightarrow> Inr (take i (children elem) @ drop (Suc i) (children elem))
                     | Some (i # j # p) \<Rightarrow> Inl ValueError)
      in case removed of
           Inl e \<Rightarrow> Inl e
         | Inr cs \<Rightarrow>
             Inr (Element (tag elem) (attrib elem) (etext elem)
                    (cs @ [Element ''exceptional-value'' [] (Some (choose_ev_for_error error_msg)) []]),
                  field_label))"

text \<open>The loop over \<open>errors.items()\<close>; the dictionary is the list of its items in order.\<close>

fun correct_all ::
  "(string \<times> string) list \<Rightarrow> etree \<Rightarrow> string option list \<Rightarrow> error + (etree \<times> string option list)" where
  "correct_all [] tree corrected_fields = Inr (tree, corrected_fields)"
| "correct_all ((component_ct_id, error_msg) # errors) tree corrected_fields =
     (case find_element_by_ct_id tree component_ct_id of
        None \<Rightarrow> correct_all errors tree corrected_fields
      | Some p \<Rightarrow>
          (case correct_component component_ct_id error_msg (get_at tree p) of
             Inl e \<Rightarrow> Inl e
           | Inr (elem, field_label) \<Rightarrow>
               correct_all errors (update_at (\<lambda>_. elem) p tree) (corrected_fields @ [field_label])))"

text \<open>The text \<^verbatim>\<open><?xml version="1.0" encoding="UTF-8"?>\<close>.\<close>

definition xml_declaration :: string where
  "xml_declaration =
     ''<?xml version='' @ [CHR 0x22] @ ''1.0'' @ [CHR 0x22] @ '' encoding='' @ [CHR 0x22] @ ''UTF-8''
       @ [CHR 0x22] @ ''?>''"

text \<open>
  \<open>SDCValidator.auto_correct_with_evs\<close>. \<open>fromstring\<close> is \<open>ET.fromstring\<close>, with \<open>None\<close> for
  \<open>ParseError\<close>; \<open>tostring\<close> is \<open>ET.tostring(tree, encoding='unicode', method='xml')\<close>.
\<close>

definition auto_correct_with_evs ::
  "(string \<Rightarrow> etree option) \<Rightarrow> (etree \<Rightarrow> string) \<Rightarrow> string \<Rightarrow> (string \<times> string) list
     \<Rightarrow> error + (string \<times> string option list)" where
  "auto_correct_with_evs fromstring tostring xml_content errors =
     (case fromstring xml_content of
        None \<Rightarrow> Inr (xml_content, [])
      | Some tree \<Rightarrow>
          (case correct_all errors tree [] of
             Inl e \<Rightarrow> Inl e
           | Inr (tree', corrected_fields) \<Rightarrow>
               Inr (if startswith (strip xml_content) ''<?xml''
                    then xml_declaration @ [CHR 0x0A] @ tostring tree'
                    else tostring tree',
                    corrected_fields)))"

section \<open>Python values and conversions\<close>

text \<open>\<open>sep.join(parts)\<close>\<close>

fun join :: "string \<Rightarrow> string list \<Rightarrow> string" where
  "join sep [] = []"
| "join sep [p] = p"
| "join sep (p # q # ps) = p @ sep @ join sep (q # ps)"

text \<open>\<open>d[k] = v\<close> on a dictionary kept as the list of its items in insertion order.\<close>

fun dict_set :: "('k \<times> 'v) list \<Rightarrow> 'k \<Rightarrow> 'v \<Rightarrow> ('k \<times> 'v) list" where
  "dict_set [] k v = [(k, v)]"
| "dict_set ((k', v') # d) k v = (if k' = k then (k, v) # d else (k', v') # dict_set d k v)"

definition digit_val :: "char \<Rightarrow> int option" where
  "digit_val c = map_of (zip ''0123456789'' [0, 1, 2, 3, 4, 5, 6, 7, 8, 9]) c"

text \<open>
  Decimal digits with single underscores between them, as \<open>int()\<close> and \<open>float()\<close> accept
  them. The flag says that the previous character was a digit.
\<close>

fun digits_acc :: "bool \<Rightarrow> int \<Rightarrow> string \<Rightarrow> int option" where
  "digits_acc prev acc [] = (if prev then Some acc else None)"
| "digits_acc prev acc (c # cs) =
     (if c = CHR ''_'' then (if prev \<and> cs \<noteq> [] then digits_acc False acc cs else None)
      else (case digit_val c of
              None \<Rightarrow> None
            | Some d \<Rightarrow> digits_acc True (acc * 10 + d) cs))"

text \<open>\<open>int(s)\<close>, with \<open>None\<close> for \<open>ValueError\<close>.\<close>

definition py_int :: "string \<Rightarrow> int option" where
  "py_int s =
     (case strip s of
        [] \<Rightarrow> None
      | c # cs \<Rightarrow>
          if c = CHR ''-'' then map_option uminus (digits_acc False 0 cs)
          else if c = CHR ''+'' then digits_acc False 0 cs
          else digits_acc False 0 (c # cs))"

definition is_digits :: "string \<Rightarrow> bool" where
  "is_digits s \<longleftrightarrow> digits_acc False 0 s \<noteq> None"

definition is_mantissa :: "string \<Rightarrow> bool" where
  "is_mantissa m =
     (let a = takeWhile (\<lambda>c. c \<noteq> CHR ''.'') m; b = drop (Suc (length a)) m in
      if CHR ''.'' \<in> set m
      then (a = [] \<or> is_digits a) \<and> (b = [] \<or> is_digits b) \<and> \<not> (a = [] \<and> b = [])
      else is_digits m)"

definition is_exponent :: "string \<Rightarrow> bool" where
  "is_exponent e =
     (case e of
        [] \<Rightarrow> False
      | c # cs \<Rightarrow> if c = CHR ''-'' \<or> c = CHR ''+'' then is_digits cs else is_digits (c # cs))"

definition unsigned_float :: "string \<Rightarrow> bool" where
  "unsigned_float u =
     (let l = lower u; m = takeWhile (\<lambda>c. c \<noteq> CHR ''e'') l; e = drop (Suc (length m)) l in
      if l \<in> set [''inf'', ''infinity'', ''nan''] then True
      else if CHR ''e'' \<in> set l then is_mantissa m \<and> is_exponent e
      else is_mantissa l)"

text \<open>
  \<open>float(s)\<close>, with \<open>None\<close> for \<open>ValueError\<close>. A float is carried as the literal it was read
  from, white space stripped; its numeric value is not modelled.
\<close>

definition py_float :: "string \<Rightarrow> string option" where
  "py_float s =
     (case strip s of
        [] \<Rightarrow> None
      | c # cs \<Rightarrow>
          if c = CHR ''-'' \<or> c = CHR ''+''
          then (if unsigned_float cs then Some (c # cs) else None)
          else (if unsigned_float (c # cs) then Some (c # cs) else None))"

text \<open>The values that the JSON projections hold.\<close>

datatype json =
  JBool bool
| JInt int
| JFloat string
| JStr string
| JObj "(string \<times> json) list"

definition digit_char :: "nat \<Rightarrow> char" where
  "digit_char d = ''0123456789'' ! d"

function string_of_nat :: "nat \<Rightarrow> string" where
  "string_of_nat n =
     (if n < 10 then [digit_char n] else string_of_nat (n div 10) @ [digit_char (n mod 10)])"
  by pat_completeness auto
termination
  by (relation "measure id") auto

definition string_of_int :: "int \<Rightarrow> string" where
  "string_of_int i = (if i < 0 then CHR ''-'' # string_of_nat (nat (- i)) else string_of_nat (nat i))"

text \<open>\<open>str(v)\<close>; \<open>float_repr\<close> renders the float read from a literal.\<close>

fun py_str :: "(string \<Rightarrow> string) \<Rightarrow> json \<Rightarrow> string" where
  "py_str float_repr (JBool b) = (if b then ''True'' else ''False'')"
| "py_str float_repr (JInt i) = string_of_int i"
| "py_str float_repr (JFloat f) = float_repr f"
| "py_str float_repr (JStr s) = s"
| "py_str float_repr (JObj d) = []"

text \<open>\<open>_strip_namespace\<close>, the same in the three readers.\<close>

definition strip_namespace :: "string \<Rightarrow> string" where
  "strip_namespace t = (if in_str ''}'' t then split (CHR ''}'') t ! 1 else t)"

text \<open>First element of the list for which \<open>f\<close> gives a result.\<close>

fun first_some :: "('a \<Rightarrow> 'b option) \<Rightarrow> 'a list \<Rightarrow> 'b option" where
  "first_some f [] = None"
| "first_some f (x # xs) = (case f x of Some y \<Rightarrow> Some y | None \<Rightarrow> first_some f xs)"

section \<open>JSON Extractor (\<open>json_extractor.py\<close>)\<close>

definition VALUE_ELEMENT_NAMES :: "string list" where
  "VALUE_ELEMENT_NAMES =
     [''xdstring-value'', ''xdboolean-value'', ''xdcount-value'', ''xdquantity-value'',
      ''xdfloat-value'', ''xddouble-value'', ''xdlink-value'', ''xdfile-value'',
      ''xdordinal-value'',
      ''xdtemporal-date'', ''xdtemporal-time'', ''xdtemporal-datetime'', ''xdtemporal-duration'',
      ''xdtemporal-day'', ''xdtemporal-month'', ''xdtemporal-year'', ''xdtemporal-year-month'',
      ''xdtemporal-month-day'']"

text \<open>\<open>JSONExtractor._parse_value\<close>\<close>

definition parse_value :: "string \<Rightarrow> json" where
  "parse_value value_str =
     (if lower value_str \<in> set [''true'', ''false''] then JBool (lower value_str = ''true'')
      else (case (if \<not> in_str ''.'' value_str then py_int value_str else None) of
              Some i \<Rightarrow> JInt i
            | None \<Rightarrow>
                (case py_float value_str of
                   Some f \<Rightarrow> JFloat f
                 | None \<Rightarrow> JStr value_str)))"

text \<open>The text of the first descendant with the tag, when it is found and its text is truthy.\<close>

definition find_text :: "string \<Rightarrow> etree \<Rightarrow> string option" where
  "find_text name elem =
     (case find name elem of
        Some e \<Rightarrow> (if truthy (etext e) then etext e else None)
      | None \<Rightarrow> None)"

text \<open>\<open>float(e.text)\<close>: \<open>TypeError\<close> on \<open>None\<close>, \<open>ValueError\<close> on text that is no float.\<close>

definition float_of_text :: "string option \<Rightarrow> error + json" where
  "float_of_text t =
     (case t of
        None \<Rightarrow> Inl TypeError
      | Some s \<Rightarrow> (case py_float s of None \<Rightarrow> Inl ValueError | Some f \<Rightarrow> Inr (JFloat f)))"

text \<open>
  \<open>JSONExtractor._extract_field\<close>. The result is the dictionary \<open>field_data\<close> as the list of
  its items, or \<open>None\<close> when it is empty.
\<close>

definition extract_field :: "etree \<Rightarrow> error + (string \<times> json) list option" where
  "extract_field elem =
     (let label_part = (case find_text ''label'' elem of
                          Some t \<Rightarrow> [(''label'', JStr t)] | None \<Rightarrow> [])
      in case find_text ''exceptional-value'' elem of
           Some ev \<Rightarrow> Inr (Some (label_part @ [(''exceptional_value'', JStr ev)]))
         | None \<Rightarrow>
             (let value_part = (case first_some (\<lambda>n. find_text n elem) VALUE_ELEMENT_NAMES of
                                  Some value_text \<Rightarrow> [(''value'', parse_value value_text)]
                                | None \<Rightarrow> []);
                  units_part = (case find_text ''units'' elem of
                                  Some t \<Rightarrow> [(''units'', JStr t)] | None \<Rightarrow> []);
                  vtb_part = (case find_text ''valid-time-begin'' elem of
                                Some t \<Rightarrow> [(''valid_time_begin'', JStr t)] | None \<Rightarrow> []);
                  vte_part = (case find_text ''valid-time-end'' elem of
                                Some t \<Rightarrow> [(''valid_time_end'', JStr t)] | None \<Rightarrow> []);
                  field_data = label_part @ value_part @ units_part @ vtb_part @ vte_part;
                  location_part =
                    (case find ''location'' elem of
                       None \<Rightarrow> Inr []
                     | Some location_elem \<Rightarrow>
                         (case (find ''latitude'' location_elem, find ''longitude'' location_elem) of
                            (Some lat_elem, Some lon_elem) \<Rightarrow>
                              (case float_of_text (etext lat_elem) of
                                 Inl e \<Rightarrow> Inl e
                               | Inr lat \<Rightarrow>
                                   (case float_of_text (etext lon_elem) of
                                      Inl e \<Rightarrow> Inl e
                                    | Inr lon \<Rightarrow>
                                        Inr [(''location'',
                                              JObj [(''latitude'', lat), (''longitude'', lon)])]))
                          | _ \<Rightarrow> Inr []))
              in case location_part of
                   Inl e \<Rightarrow> Inl e
                 | Inr loc \<Rightarrow>
                     Inr (if field_data @ loc = [] then None else Some (field_data @ loc))))"

text \<open>
  \<open>JSONExtractor._extract_fields_recursive\<close>. The state is the pair of the dictionary
  \<open>fields\<close> and the list \<open>search_parts\<close>, both updated in place by the source.
\<close>

definition has_value :: "etree \<Rightarrow> bool" where
  "has_value elem \<longleftrightarrow>
     (\<exists>value_name \<in> set VALUE_ELEMENT_NAMES. find value_name elem \<noteq> None)
     \<or> find ''exceptional-value'' elem \<noteq> None"

definition visit_field ::
  "(string \<Rightarrow> string) \<Rightarrow> etree \<Rightarrow> (string \<times> json) list \<times> string list
     \<Rightarrow> error + ((string \<times> json) list \<times> string list)" where
  "visit_field float_repr elem st =
     (let tag_name = strip_namespace (tag elem); ct_id = drop 3 tag_name in
      if startswith tag_name ''ms-'' \<and> has_value elem \<and> ct_id \<noteq> []
      then (case extract_field elem of
              Inl e \<Rightarrow> Inl e
            | Inr None \<Rightarrow> Inr st
            | Inr (Some field_data) \<Rightarrow>
                Inr (dict_set (fst st) ct_id (JObj field_data),
                     snd st
                     @ (case map_of field_data ''value'' of
                          Some v \<Rightarrow> [py_str float_repr v] | None \<Rightarrow> [])
                     @ (case map_of field_data ''label'' of
                          Some l \<Rightarrow> [py_str float_repr l] | None \<Rightarrow> [])))
      else Inr st)"

fun extract_fields_recursive ::
  "(string \<Rightarrow> string) \<Rightarrow> etree \<Rightarrow> (string \<times> json) list \<times> string list
     \<Rightarrow> error + ((string \<times> json) list \<times> string list)"
  and extract_fields_children ::
  "(string \<Rightarrow> string) \<Rightarrow> etree list \<Rightarrow> (string \<times> json) list \<times> string list
     \<Rightarrow> error + ((string \<times> json) list \<times> string list)" where
  "extract_fields_recursive float_repr (Element t a x cs) st =
     (case visit_field float_repr (Element t a x cs) st of
        Inl e \<Rightarrow> Inl e
      | Inr st' \<Rightarrow> extract_fields_children float_repr cs st')"
| "extract_fields_children float_repr [] st = Inr st"
| "extract_fields_children float_repr (c # cs) st =
     (case extract_fields_recursive float_repr c st of
        Inl e \<Rightarrow> Inl e
      | Inr st' \<Rightarrow> extract_fields_children float_repr cs st')"

text \<open>\<open>JSONExtractor._extract_metadata\<close>\<close>

definition extract_metadata :: "etree \<Rightarrow> (string \<times> json) list" where
  "extract_metadata tree =
     (case get_attr tree ''instance-id'' of
        Some i \<Rightarrow> [(''instance_id'', JStr i)] | None \<Rightarrow> [])
     @ concat (map (\<lambda>field. case find_text field tree of
                               Some t \<Rightarrow> [(replace ''-'' ''_'' field, JStr t)]
                             | None \<Rightarrow> [])
         [''dm-label'', ''dm-language'', ''dm-encoding'', ''creation_timestamp'',
          ''instance_version'', ''current-state''])"

text \<open>
  \<open>JSONExtractor.extract\<close> (the name \<open>extract\<close> is taken by Isabelle); \<open>fromstring\<close>
  gives \<open>None\<close> for \<open>ParseError\<close>.
\<close>

definition json_extract ::
  "(string \<Rightarrow> etree option) \<Rightarrow> (string \<Rightarrow> string) \<Rightarrow> string \<Rightarrow> error + json" where
  "json_extract fromstring float_repr xml_content =
     (case fromstring xml_content of
        None \<Rightarrow> Inr (JObj [(''metadata'', JObj []), (''fields'', JObj []), (''search_text'', JStr '''')])
      | Some tree \<Rightarrow>
          (case extract_fields_recursive float_repr tree ([], []) of
             Inl e \<Rightarrow> Inl e
           | Inr (fields, search_text_parts) \<Rightarrow>
               Inr (JObj [(''metadata'', JObj (extract_metadata tree)),
                          (''fields'', JObj fields),
                          (''search_text'', JStr (join '' '' search_text_parts))])))"

section \<open>Field Metadata Table\<close>

text \<open>
  \<open>FIELD_METADATA\<close> is a dictionary from ct_id to a dictionary per field; the table is the
  list of its items in order. Every key of an entry is optional, as the readers use
  \<open>meta.get\<close> throughout. \<open>m_other_keys\<close> names the keys of the entry that the pipeline does
  not read (constraints, flags), which still make the entry a non-empty dictionary.
\<close>

record units_info =
  u_ct_id :: "string option"
  u_label :: "string option"
  u_symbols :: "string list"
  u_def_val :: "string option"

record field_meta =
  m_label :: "string option"
  m_type :: "string option"
  m_ct_id :: "string option"
  m_adapter_ctid :: "string option"
  m_units :: "units_info option"
  m_temporal_types :: "string list option"
  m_other_keys :: "string list"

definition meta_is_empty :: "field_meta \<Rightarrow> bool" where
  "meta_is_empty m \<longleftrightarrow>
     m_label m = None \<and> m_type m = None \<and> m_ct_id m = None \<and> m_adapter_ctid m = None \<and>
     m_units m = None \<and> m_temporal_types m = None \<and> m_other_keys m = []"

definition PLACEHOLDER_PREFIX :: string where
  "PLACEHOLDER_PREFIX = ''__PLACEHOLDER__''"

definition EV_CODE_LIST :: "string list" where
  "EV_CODE_LIST =
     [''NI'', ''MSK'', ''INV'', ''DER'', ''UNC'', ''OTH'', ''NINF'', ''PINF'',
      ''ASKR'', ''NASK'', ''NAV'', ''NA'', ''TRC'', ''ASKU'', ''UNK'', ''QS'']"

definition TEMPORAL_VALUE_ELEMENTS :: "string list" where
  "TEMPORAL_VALUE_ELEMENTS =
     [''xdtemporal-date'', ''xdtemporal-time'', ''xdtemporal-datetime'', ''xdtemporal-duration'',
      ''xdtemporal-day'', ''xdtemporal-month'', ''xdtemporal-year'', ''xdtemporal-year-month'',
      ''xdtemporal-month-day'']"

text \<open>The dictionary from field type to value element name of the two typed readers.\<close>

definition VALUE_ELEMENTS :: "(string \<times> string) list" where
  "VALUE_ELEMENTS =
     [(''XdString'', ''xdstring-value''), (''XdBoolean'', ''xdboolean-value''),
      (''XdCount'', ''xdcount-value''), (''XdQuantity'', ''xdquantity-value''),
      (''XdFloat'', ''xdfloat-value''), (''XdDouble'', ''xddouble-value''),
      (''XdLink'', ''xdlink-value''), (''XdFile'', ''xdfile-value''),
      (''XdOrdinal'', ''xdordinal-value'')]"

definition units_elem_names :: "(string \<times> string) list" where
  "units_elem_names =
     [(''XdCount'', ''xdcount-units''), (''XdQuantity'', ''xdquantity-units''),
      (''XdFloat'', ''xdfloat-units''), (''XdDouble'', ''xddouble-units''),
      (''XdOrdinal'', ''xdordinal-units'')]"

section \<open>JSON Instance Generator (\<open>json_instance_generator.py\<close>)\<close>

text \<open>\<open>JSONInstanceGenerator._extract_metadata\<close>\<close>

definition gen_extract_metadata :: "etree \<Rightarrow> (string \<times> json) list" where
  "gen_extract_metadata root =
     foldl (\<lambda>metadata elem.
              case map_of [(''dm-label'', ''dm_label''), (''creation_timestamp'', ''created_at''),
                           (''instance_id'', ''instance_id'')] (strip_namespace (tag elem)) of
                Some key \<Rightarrow>
                  (case etext elem of
                     Some t \<Rightarrow> if t \<noteq> [] then dict_set metadata key (JStr t) else metadata
                   | None \<Rightarrow> metadata)
              | None \<Rightarrow> metadata)
       (if startswith (strip_namespace (tag root)) ''dm-''
        then [(''dm_ct_id'', JStr (replace ''dm-'' [] (strip_namespace (tag root))))]
        else [])
       (children root)"

text \<open>\<open>_extract_ev\<close>: the tag of the first child that is one of the sixteen EV codes.\<close>

definition gen_extract_ev :: "etree \<Rightarrow> string option" where
  "gen_extract_ev elem =
     first_some (\<lambda>child. if strip_namespace (tag child) \<in> set EV_CODE_LIST
                          then Some (strip_namespace (tag child)) else None)
       (children elem)"

text \<open>\<open>JSONInstanceGenerator._parse_value\<close>\<close>

definition gen_parse_value :: "string \<Rightarrow> string \<Rightarrow> json" where
  "gen_parse_value value_str field_type =
     (if field_type = ''XdBoolean'' then JBool (lower value_str = ''true'')
      else if field_type \<in> set [''XdCount'', ''XdOrdinal'']
        then (case py_int value_str of Some i \<Rightarrow> JInt i | None \<Rightarrow> JStr value_str)
      else if field_type \<in> set [''XdQuantity'', ''XdFloat'', ''XdDouble'']
        then (case py_float value_str of Some f \<Rightarrow> JFloat f | None \<Rightarrow> JStr value_str)
      else JStr value_str)"

text \<open>\<open>_extract_value\<close>\<close>

definition gen_extract_value :: "etree \<Rightarrow> string \<Rightarrow> json option" where
  "gen_extract_value elem field_type =
     (if field_type = ''XdTemporal''
      then first_some (\<lambda>temporal_elem_name.
                         case find_text temporal_elem_name elem of
                           Some t \<Rightarrow> if \<not> startswith t PLACEHOLDER_PREFIX then Some (JStr t) else None
                         | None \<Rightarrow> None)
             TEMPORAL_VALUE_ELEMENTS
      else (case find_text (case map_of VALUE_ELEMENTS field_type of
                              Some n \<Rightarrow> n | None \<Rightarrow> ''value'') elem of
              None \<Rightarrow> None
            | Some t \<Rightarrow>
                if startswith t PLACEHOLDER_PREFIX then None
                else Some (gen_parse_value t field_type)))"

text \<open>\<open>_extract_units_value\<close>\<close>

definition gen_extract_units_value :: "etree \<Rightarrow> string \<Rightarrow> string option" where
  "gen_extract_units_value elem field_type =
     (case map_of units_elem_names field_type of
        None \<Rightarrow> None
      | Some units_elem_name \<Rightarrow>
          (case find units_elem_name elem of
             None \<Rightarrow> None
           | Some units_elem \<Rightarrow>
               (case find_text ''xdstring-value'' units_elem of
                  None \<Rightarrow> None
                | Some t \<Rightarrow> if startswith t PLACEHOLDER_PREFIX then None else Some t)))"

text \<open>\<open>_extract_field_data\<close>: the items of \<open>field_data\<close>, or \<open>None\<close> when it is empty.\<close>

definition gen_extract_field_data :: "etree \<Rightarrow> string \<Rightarrow> (string \<times> json) list option" where
  "gen_extract_field_data elem field_type =
     (let field_data =
            (case gen_extract_ev elem of Some ev \<Rightarrow> [(''ev'', JStr ev)] | None \<Rightarrow> [])
          @ (case gen_extract_value elem field_type of Some v \<Rightarrow> [(''value'', v)] | None \<Rightarrow> [])
          @ (case gen_extract_units_value elem field_type of
               Some u \<Rightarrow> if u \<noteq> [] then [(''units'', JStr u)] else [] | None \<Rightarrow> [])
      in if field_data = [] then None else Some field_data)"

text \<open>\<open>_extract_fields\<close>: the loop over \<open>root.iter()\<close>.\<close>

definition gen_extract_fields :: "(string \<times> field_meta) list \<Rightarrow> etree \<Rightarrow> (string \<times> json) list" where
  "gen_extract_fields field_metadata root =
     foldl (\<lambda>fields elem.
              let tg = strip_namespace (tag elem) in
              if \<not> startswith tg ''ms-'' then fields
              else (case map_of field_metadata (replace ''ms-'' [] tg) of
                      None \<Rightarrow> fields
                    | Some meta \<Rightarrow>
                        (case gen_extract_field_data elem
                                (case m_type meta of Some ty \<Rightarrow> ty | None \<Rightarrow> ''XdString'') of
                           None \<Rightarrow> fields
                         | Some field_data \<Rightarrow>
                             dict_set fields
                               (case m_label meta of
                                  Some l \<Rightarrow> l | None \<Rightarrow> replace ''ms-'' [] tg)
                               (JObj field_data))))
       [] (iter root)"

text \<open>\<open>JSONInstanceGenerator.generate\<close>\<close>

definition generate ::
  "(string \<times> field_meta) list \<Rightarrow> (string \<Rightarrow> etree option) \<Rightarrow> string \<Rightarrow> json" where
  "generate field_metadata fromstring xml_content =
     (case fromstring xml_content of
        None \<Rightarrow> JObj []
      | Some root \<Rightarrow>
          JObj [(''metadata'', JObj (gen_extract_metadata root)),
                (''fields'', JObj (gen_extract_fields field_metadata root))])"

section \<open>RDF Extractor (\<open>rdf_extractor.py\<close>)\<close>

definition nl :: string where
  "nl = [CHR 0x0A]"

definition dq :: string where
  "dq = [CHR 0x22]"

definition PREFIXES :: string where
  "PREFIXES =
     ''@prefix rdf: <http://www.w3.org/1999/02/22-rdf-syntax-ns#> .'' @ nl @
     ''@prefix rdfs: <http://www.w3.org/2000/01/rdf-schema#> .'' @ nl @
     ''@prefix xsd: <http://www.w3.org/2001/XMLSchema#> .'' @ nl @
     ''@prefix dc: <http://purl.org/dc/elements/1.1/> .'' @ nl @
     ''@prefix sdc4: <https://semanticdatacharter.com/ns/sdc4/> .'' @ nl @
     ''@prefix dm: <https://semanticdatacharter.com/ns/dm/> .'' @ nl @
     ''@prefix : <https://semanticdatacharter.com/ns/dm/> .'' @ nl @ nl"

definition XSD_DATATYPES :: "(string \<times> string) list" where
  "XSD_DATATYPES =
     [(''XdString'', ''xsd:string''), (''XdBoolean'', ''xsd:boolean''),
      (''XdCount'', ''xsd:integer''), (''XdOrdinal'', ''xsd:integer''),
      (''XdQuantity'', ''xsd:decimal''), (''XdFloat'', ''xsd:float''),
      (''XdDouble'', ''xsd:double''), (''XdTemporal'', ''xsd:dateTime''),
      (''XdLink'', ''xsd:anyURI''), (''XdFile'', ''xsd:base64Binary'')]"

text \<open>
  \<open>RDFExtractor._escape_turtle\<close>: \<open>None\<close> gives the empty string; then the five
  replacements in the order of the source.
\<close>

definition escape_turtle :: "string option \<Rightarrow> string" where
  "escape_turtle v =
     (case v of
        None \<Rightarrow> []
      | Some s \<Rightarrow>
          replace [CHR 0x09] [CHR 0x5C, CHR ''t'']
            (replace [CHR 0x0D] [CHR 0x5C, CHR ''r'']
               (replace [CHR 0x0A] [CHR 0x5C, CHR ''n'']
                  (replace [CHR 0x22] [CHR 0x5C, CHR 0x22]
                     (replace [CHR 0x5C] [CHR 0x5C, CHR 0x5C] s)))))"

text \<open>
  The literal placed in the quoted triple (the \<open>if\<close> chain of
  \<open>_extract_component_triple_term\<close> that sets \<open>value_literal\<close>).
\<close>

definition value_literal :: "string \<Rightarrow> string \<Rightarrow> string" where
  "value_literal field_type v =
     (if field_type = ''XdBoolean'' then lower v
      else if field_type \<in> set [''XdCount'', ''XdOrdinal''] then v
      else if field_type \<in> set [''XdQuantity'', ''XdFloat'', ''XdDouble''] then v
      else dq @ escape_turtle (Some v) @ dq)"

text \<open>\<open>lines[-1] = lines[-1].rstrip(' ;') + ' .'\<close> followed by \<open>lines.append('')\<close>.\<close>

definition close_description :: "string list \<Rightarrow> string list" where
  "close_description lines = butlast lines @ [rstrip_chars '' ;'' (last lines) @ '' .'', []]"

text \<open>A line of the form \<open>    sdc4:name "text"^^xsd:type ;\<close> for an element that is present.\<close>

definition typed_line :: "etree \<Rightarrow> string \<Rightarrow> string \<Rightarrow> string \<Rightarrow> string list" where
  "typed_line elem name prop xsd =
     (case find_text name elem of
        Some t \<Rightarrow>
          if \<not> startswith t ''__PLACEHOLDER__''
          then [''    sdc4:'' @ prop @ '' '' @ dq @ t @ dq @ ''^^xsd:'' @ xsd @ '' ;'']
          else []
      | None \<Rightarrow> [])"

text \<open>\<open>_generate_instance_metadata\<close>\<close>

definition generate_instance_metadata ::
  "string \<Rightarrow> string \<Rightarrow> etree \<Rightarrow> string \<Rightarrow> string \<Rightarrow> string option list \<Rightarrow> string list" where
  "generate_instance_metadata dm_ct_id dm_label tree instance_id validation_status
       auto_corrected_fields =
     close_description
       ([''# Instance: '' @ instance_id,
         ''sdc4:'' @ instance_id @ '' a sdc4:dm-'' @ dm_ct_id @ '' ;'',
         ''    rdfs:label '' @ dq @ escape_turtle (Some dm_label) @ dq @ '' ;'']
        @ (case find_text ''creation_timestamp'' tree of
             Some t \<Rightarrow> [''    dc:created '' @ dq @ t @ dq @ ''^^xsd:dateTime ;'']
           | None \<Rightarrow> [])
        @ [''    sdc4:validationStatus '' @ dq @ validation_status @ dq @ '' ;'']
        @ map (\<lambda>field_label.
                 ''    sdc4:autoCorrectedField '' @ dq @ escape_turtle field_label @ dq @ '' ;'')
            auto_corrected_fields)"

text \<open>\<open>_find_cluster_ct_id\<close>\<close>

definition find_cluster_ct_id :: "etree \<Rightarrow> string option" where
  "find_cluster_ct_id tree =
     first_some (\<lambda>elem. if startswith (strip_namespace (tag elem)) ''ms-''
                         then Some (replace ''ms-'' [] (strip_namespace (tag elem))) else None)
       (children tree)"

text \<open>\<open>_find_ev_element\<close>, giving the code that the caller takes from the tag.\<close>

definition find_ev_code :: "etree \<Rightarrow> string option" where
  "find_ev_code elem =
     first_some (\<lambda>child. if strip_namespace (tag child) \<in> set EV_CODE_LIST
                          then Some (strip_namespace (tag child)) else None)
       (children elem)"

text \<open>
  The value element of a component and its name: for \<open>XdTemporal\<close> the first temporal
  element with text, otherwise the element named by the field type.
\<close>

definition find_value :: "etree \<Rightarrow> string \<Rightarrow> (string \<times> string) option" where
  "find_value elem field_type =
     (if field_type = ''XdTemporal''
      then first_some (\<lambda>n. map_option (\<lambda>t. (n, t)) (find_text n elem)) TEMPORAL_VALUE_ELEMENTS
      else (let n = (case map_of VALUE_ELEMENTS field_type of Some n \<Rightarrow> n | None \<Rightarrow> ''value'')
            in map_option (\<lambda>t. (n, t)) (find_text n elem)))"

text \<open>\<open>_extract_component_triple_term\<close>\<close>

definition extract_component_triple_term ::
  "string \<Rightarrow> (string \<times> field_meta) list \<Rightarrow> etree \<Rightarrow> string \<Rightarrow> string \<Rightarrow> string
     \<Rightarrow> string option \<Rightarrow> string list" where
  "extract_component_triple_term dm_ct_id field_metadata elem ct_id instance_id instance_cuid
       cluster_ct_id =
     (case map_of field_metadata ct_id of
        None \<Rightarrow> []
      | Some field_meta \<Rightarrow>
          if meta_is_empty field_meta then []
          else
            (let field_type = (case m_type field_meta of Some ty \<Rightarrow> ty | None \<Rightarrow> ''XdString'');
                 field_label = (case m_label field_meta of Some l \<Rightarrow> l | None \<Rightarrow> ct_id);
                 val = find_value elem field_type;
                 ev_code = find_ev_code elem;
                 reifier_uri = '':v_'' @ ct_id @ ''_'' @ instance_cuid
             in if val = None \<and> ev_code = None then []
                else close_description
                  ([''# '' @ field_label @ '' ('' @ field_type @ '')'']
                   @ (case val of
                        Some (value_elem_name, v) \<Rightarrow>
                          [reifier_uri @ '' rdf:reifies << sdc4:mc-'' @ ct_id @ '' sdc4:''
                             @ value_elem_name @ '' '' @ value_literal field_type v @ '' >> ;'']
                      | None \<Rightarrow> [reifier_uri @ '' a sdc4:ExceptionalValueStatement ;''])
                   @ [''    sdc4:inInstance sdc4:'' @ instance_id @ '' ;'',
                      ''    sdc4:inDataModel sdc4:dm-'' @ dm_ct_id @ '' ;'']
                   @ (if truthy cluster_ct_id
                      then [''    sdc4:inCluster sdc4:mc-'' @ the cluster_ct_id @ '' ;''] else [])
                   @ (if truthy (m_adapter_ctid field_meta)
                      then [''    sdc4:throughAdapter sdc4:mc-'' @ the (m_adapter_ctid field_meta)
                              @ '' ;'']
                      else [])
                   @ [''    rdfs:label '' @ dq @ escape_turtle (Some field_label) @ dq @ '' ;'']
                   @ (case map_of units_elem_names field_type of
                        None \<Rightarrow> []
                      | Some units_elem_name \<Rightarrow>
                          (case find units_elem_name elem of
                             None \<Rightarrow> []
                           | Some units_elem \<Rightarrow>
                               (case find_text ''xdstring-value'' units_elem of
                                  None \<Rightarrow> []
                                | Some u \<Rightarrow>
                                    [''    sdc4:units '' @ dq @ escape_turtle (Some u) @ dq
                                       @ '' ;''])))
                   @ (case ev_code of
                        Some c \<Rightarrow> if c \<noteq> [] then [''    sdc4:ev sdc4:'' @ c @ '' ;''] else []
                      | None \<Rightarrow> [])
                   @ typed_line elem ''vtb'' ''vtb'' ''dateTime''
                   @ typed_line elem ''vte'' ''vte'' ''dateTime''
                   @ typed_line elem ''tr'' ''tr'' ''dateTime''
                   @ typed_line elem ''modified'' ''modified'' ''dateTime''
                   @ (case (find_text ''latitude'' elem, find_text ''longitude'' elem) of
                        (Some lat, Some lon) \<Rightarrow>
                          if \<not> startswith lat ''__PLACEHOLDER__'' \<and> \<not> startswith lon ''__PLACEHOLDER__''
                          then [''    sdc4:latitude '' @ dq @ lat @ dq @ ''^^xsd:decimal ;'',
                                ''    sdc4:longitude '' @ dq @ lon @ dq @ ''^^xsd:decimal ;'']
                          else []
                      | _ \<Rightarrow> [])
                   @ (case find_text ''act'' elem of
                        Some t \<Rightarrow>
                          if \<not> startswith t ''__PLACEHOLDER__''
                          then [''    sdc4:act '' @ dq @ escape_turtle (Some t) @ dq @ '' ;'']
                          else []
                      | None \<Rightarrow> []))))"

text \<open>\<open>RDFExtractor.extract\<close>; the result for \<open>ParseError\<close> is the empty string.\<close>

definition rdf_extract ::
  "string \<Rightarrow> string \<Rightarrow> (string \<times> field_meta) list \<Rightarrow> (string \<Rightarrow> etree option) \<Rightarrow> string
     \<Rightarrow> string \<Rightarrow> string \<Rightarrow> string option list \<Rightarrow> string" where
  "rdf_extract dm_ct_id dm_label field_metadata fromstring xml_content instance_id
       validation_status auto_corrected_fields =
     (case fromstring xml_content of
        None \<Rightarrow> []
      | Some tree \<Rightarrow>
          (let instance_cuid = replace ''ev-'' [] (replace ''i-'' [] instance_id);
               cluster_ct_id = find_cluster_ct_id tree
           in join nl
                ([PREFIXES]
                 @ generate_instance_metadata dm_ct_id dm_label tree instance_id validation_status
                     auto_corrected_fields
                 @ concat (map (\<lambda>elem.
                      let tag_name = strip_namespace (tag elem) in
                      if startswith tag_name ''ms-''
                           \<and> replace ''ms-'' [] tag_name \<in> fst ` set field_metadata
                      then extract_component_triple_term dm_ct_id field_metadata elem
                             (replace ''ms-'' [] tag_name) instance_id instance_cuid cluster_ct_id
                      else [])
                    (iter tree)))))"

section \<open>Reading a Turtle string literal\<close>

text \<open>
  The reader of the Turtle grammar for a literal in double quotes
  (\<open>STRING_LITERAL_QUOTE\<close>): between the quotes, a character other than the double quote,
  the backslash, line feed and carriage return stands for itself, and a backslash begins
  one of the escapes \<open>\t \b \n \r \f \" \' \\\<close>. \<open>None\<close> is a lexical error.
\<close>

fun turtle_unescape :: "string \<Rightarrow> string option" where
  "turtle_unescape [] = Some []"
| "turtle_unescape [c] =
     (if c = CHR 0x5C \<or> c = CHR 0x22 \<or> c = CHR 0x0A \<or> c = CHR 0x0D then None else Some [c])"
| "turtle_unescape (c # d # cs) =
     (if c = CHR 0x5C
      then (case map_of [(CHR ''t'', CHR 0x09), (CHR ''b'', CHR 0x08), (CHR ''n'', CHR 0x0A),
                         (CHR ''r'', CHR 0x0D), (CHR ''f'', CHR 0x0C), (CHR 0x22, CHR 0x22),
                         (CHR 0x27, CHR 0x27), (CHR 0x5C, CHR 0x5C)] d of
              None \<Rightarrow> None
            | Some x \<Rightarrow> map_option (\<lambda>r. x # r) (turtle_unescape cs))
      else if c = CHR 0x22 \<or> c = CHR 0x0A \<or> c = CHR 0x0D then None
      else map_option (\<lambda>r. c # r) (turtle_unescape (d # cs)))"

definition turtle_read_literal :: "string \<Rightarrow> string option" where
  "turtle_read_literal lit =
     (if 2 \<le> length lit \<and> hd lit = CHR 0x22 \<and> last lit = CHR 0x22
      then turtle_unescape (butlast (tl lit))
      else None)"

section \<open>Document Builder, string phase (\<open>xml_builder.py\<close>)\<close>

text \<open>
  The values of \<open>form_data\<close>. The form's \<open>clean\<close> turns dates, times and decimals into
  strings before the builder is called, so a value is \<open>None\<close>, a boolean, an integer or a
  string.
\<close>

datatype pyval = PNone | PBool bool | PInt int | PStr string

text \<open>\<open>str(value)\<close>\<close>

fun str_of :: "pyval \<Rightarrow> string" where
  "str_of PNone = ''None''"
| "str_of (PBool b) = (if b then ''True'' else ''False'')"
| "str_of (PInt i) = string_of_int i"
| "str_of (PStr s) = s"

text \<open>Truthiness, as in \<open>'true' if value else 'false'\<close>.\<close>

fun py_truth :: "pyval \<Rightarrow> bool" where
  "py_truth PNone = False"
| "py_truth (PBool b) = b"
| "py_truth (PInt i) = (i \<noteq> 0)"
| "py_truth (PStr s) = (s \<noteq> [])"

text \<open>\<open>value is not None and value != ''\<close>\<close>

fun has_content :: "pyval \<Rightarrow> bool" where
  "has_content PNone = False"
| "has_content (PStr s) = (s \<noteq> [])"
| "has_content v = True"

text \<open>
  The runtime metadata of one field (an entry of \<open>metadata_dict\<close>); a value that is absent
  or empty is falsy. The default entry is the empty dictionary.
\<close>

record field_override =
  o_act :: "string option"
  o_vtb :: "string option"
  o_vte :: "string option"
  o_tr :: "string option"
  o_mod :: "string option"
  o_location :: "(string option \<times> string option) option"
  o_units :: "string option"
  o_ev :: "string option"

definition no_override :: field_override where
  "no_override = \<lparr>o_act = None, o_vtb = None, o_vte = None, o_tr = None, o_mod = None,
                    o_location = None, o_units = None, o_ev = None\<rparr>"

text \<open>\<open>XMLBuilder._escape_xml\<close>\<close>

definition escape_xml :: "string \<Rightarrow> string" where
  "escape_xml v =
     replace [CHR 0x27] ''&apos;''
       (replace [CHR 0x22] ''&quot;''
          (replace ''>'' ''&gt;''
             (replace ''<'' ''&lt;''
                (replace ''&'' ''&amp;'' v))))"

text \<open>
  \<open>XMLBuilder._format_temporal_value\<close>, the branch for a value that is not a date or time
  object: the value is taken through \<open>str\<close>.
\<close>

definition format_temporal_value :: "pyval \<Rightarrow> string \<Rightarrow> string" where
  "format_temporal_value v temporal_type =
     (if \<not> has_content v then []
      else
        (let str_value = str_of v in
         if temporal_type = ''date'' then
           (let s1 = (if in_str '' '' str_value then split (CHR '' '') str_value ! 0 else str_value);
                s2 = (if in_str ''T'' s1 then split (CHR ''T'') s1 ! 0 else s1)
            in s2)
         else if temporal_type = ''time'' then
           (let s1 = (if in_str ''T'' str_value then split (CHR ''T'') str_value ! 1 else str_value);
                s2 = (if in_str ''+'' s1 then split (CHR ''+'') s1 ! 0 else s1);
                s3 = (if in_str '' '' s2 \<and> 1 < length (split (CHR '' '') s2)
                      then (let s = split (CHR '' '') s2 ! 1
                            in if in_str ''+'' s then split (CHR ''+'') s ! 0 else s)
                      else s2)
            in s3)
         else str_value))"

text \<open>\<open>XMLBuilder._get_value_element_name\<close>\<close>

definition type_map :: "(string \<times> string) list" where
  "type_map =
     [(''XdString'', ''xdstring-value''), (''XdBoolean'', ''xdboolean-value''),
      (''XdCount'', ''xdcount-value''), (''XdQuantity'', ''xdquantity-value''),
      (''XdFloat'', ''xdfloat-value''), (''XdDouble'', ''xddouble-value''),
      (''XdLink'', ''xdlink-value''), (''XdFile'', ''xdfile-value''),
      (''XdOrdinal'', ''xdordinal-value''), (''XdInterval'', ''xdinterval-value''),
      (''XdToken'', ''xdtoken-value'')]"

definition temporal_element_map :: "(string \<times> string) list" where
  "temporal_element_map =
     [(''date'', ''xdtemporal-date''), (''time'', ''xdtemporal-time''),
      (''datetime'', ''xdtemporal-datetime''), (''duration'', ''xdtemporal-duration''),
      (''day'', ''xdtemporal-day''), (''month'', ''xdtemporal-month''),
      (''year'', ''xdtemporal-year''), (''year_month'', ''xdtemporal-year-month''),
      (''month_day'', ''xdtemporal-month-day'')]"

definition get_value_element_name :: "string \<Rightarrow> field_meta \<Rightarrow> string" where
  "get_value_element_name field_type field_meta =
     (if field_type = ''XdTemporal''
      then (case m_temporal_types field_meta of
              Some (first_type # rest) \<Rightarrow>
                (case map_of temporal_element_map first_type of
                   Some n \<Rightarrow> n | None \<Rightarrow> ''xdtemporal-date'')
            | _ \<Rightarrow> ''xdtemporal-date'')
      else (case map_of type_map field_type of Some n \<Rightarrow> n | None \<Rightarrow> ''value''))"

text \<open>\<open>_replace_metadata_placeholders\<close>; \<open>now\<close> is \<open>datetime.utcnow().isoformat()\<close>.\<close>

definition replace_metadata_placeholders :: "string \<Rightarrow> string \<Rightarrow> string \<Rightarrow> string" where
  "replace_metadata_placeholders now xml_content instance_id =
     replace (PLACEHOLDER_PREFIX @ ''instance_id'') instance_id
       (replace (PLACEHOLDER_PREFIX @ ''creation_timestamp'') now xml_content)"

text \<open>Replace a placeholder when the runtime value is truthy.\<close>

definition replace_if :: "string option \<Rightarrow> string \<Rightarrow> (string \<Rightarrow> string) \<Rightarrow> string \<Rightarrow> string" where
  "replace_if v placeholder f xml_content =
     (case v of
        Some s \<Rightarrow> if s \<noteq> [] then replace placeholder (f s) xml_content else xml_content
      | None \<Rightarrow> xml_content)"

text \<open>\<open>_replace_optional_metadata\<close>\<close>

definition replace_optional_metadata :: "string \<Rightarrow> string \<Rightarrow> field_override \<Rightarrow> string" where
  "replace_optional_metadata xml_content ct_id field_meta =
     (let x1 = replace_if (o_act field_meta) (PLACEHOLDER_PREFIX @ ''act_'' @ ct_id) escape_xml
                 xml_content;
          x2 = replace_if (o_vtb field_meta) (PLACEHOLDER_PREFIX @ ''vtb_'' @ ct_id) (\<lambda>s. s) x1;
          x3 = replace_if (o_vte field_meta) (PLACEHOLDER_PREFIX @ ''vte_'' @ ct_id) (\<lambda>s. s) x2;
          x4 = replace_if (o_tr field_meta) (PLACEHOLDER_PREFIX @ ''tr_'' @ ct_id) (\<lambda>s. s) x3;
          x5 = replace_if (o_mod field_meta) (PLACEHOLDER_PREFIX @ ''modified_'' @ ct_id) (\<lambda>s. s) x4
      in case o_location field_meta of
           None \<Rightarrow> x5
         | Some (lat_value, lon_value) \<Rightarrow>
             (let x6 = (case lat_value of
                          Some lat \<Rightarrow> replace (PLACEHOLDER_PREFIX @ ''latitude_'' @ ct_id) lat x5
                        | None \<Rightarrow> x5)
              in case lon_value of
                   Some lon \<Rightarrow> replace (PLACEHOLDER_PREFIX @ ''longitude_'' @ ct_id) lon x6
                 | None \<Rightarrow> x6))"

definition units_is_empty :: "units_info \<Rightarrow> bool" where
  "units_is_empty u \<longleftrightarrow>
     u_ct_id u = None \<and> u_label u = None \<and> u_symbols u = [] \<and> u_def_val u = None"

text \<open>
  \<open>_replace_units_placeholder\<close>. The static entry is looked up under the label in lower
  case with underscores, and failing that is the first entry whose \<open>ct_id\<close> key is the
  field's ct_id.
\<close>

definition replace_units_placeholder ::
  "(string \<times> field_meta) list \<Rightarrow> string \<Rightarrow> string \<Rightarrow> field_override \<Rightarrow> string \<Rightarrow> string
     \<Rightarrow> string" where
  "replace_units_placeholder field_metadata xml_content ct_id field_meta field_label field_type =
     (if field_type \<notin> set [''XdCount'', ''XdQuantity'', ''XdFloat'', ''XdDouble'', ''XdOrdinal'']
        then xml_content
      else if \<not> truthy (o_units field_meta) then xml_content
      else
        (let by_label = (case map_of field_metadata (replace '' '' ''_'' (lower field_label)) of
                           Some fi \<Rightarrow> if meta_is_empty fi then None else Some fi
                         | None \<Rightarrow> None);
             field_info = (case by_label of
                             Some fi \<Rightarrow> Some fi
                           | None \<Rightarrow>
                               first_some (\<lambda>(fname, fmeta).
                                   if m_ct_id fmeta = Some ct_id then Some fmeta else None)
                                 field_metadata)
         in case (case field_info of Some fi \<Rightarrow> m_units fi | None \<Rightarrow> None) of
              None \<Rightarrow> xml_content
            | Some units_info \<Rightarrow>
                if units_is_empty units_info then xml_content
                else (case u_ct_id units_info of
                        None \<Rightarrow> xml_content
                      | Some units_ct_id \<Rightarrow>
                          if units_ct_id = [] then xml_content
                          else
                            replace (PLACEHOLDER_PREFIX @ ''xdstring-value_'' @ units_ct_id)
                              (escape_xml (the (o_units field_meta)))
                              (replace (PLACEHOLDER_PREFIX @ ''label_'' @ units_ct_id)
                                 (escape_xml (case u_label units_info of
                                                Some l \<Rightarrow> l | None \<Rightarrow> field_label @ ''_units''))
                                 xml_content))))"

text \<open>The body of the loop of \<open>_replace_field_placeholders\<close> for one entry of the table.\<close>

definition replace_one_field ::
  "(string \<times> field_meta) list \<Rightarrow> (string \<times> pyval) list \<Rightarrow> (string \<times> field_override) list
     \<Rightarrow> string \<Rightarrow> string \<times> field_meta \<Rightarrow> string" where
  "replace_one_field field_metadata form_data metadata_dict xml_content entry =
     (let ct_id = fst entry; meta = snd entry;
          field_type = (case m_type meta of Some ty \<Rightarrow> ty | None \<Rightarrow> []);
          field_label = (case m_label meta of Some l \<Rightarrow> l | None \<Rightarrow> ct_id)
      in case map_of form_data ct_id of
           None \<Rightarrow> xml_content
         | Some v \<Rightarrow>
             (let field_meta = (case map_of metadata_dict ct_id of
                                  Some ov \<Rightarrow> ov | None \<Rightarrow> no_override);
                  placeholder = PLACEHOLDER_PREFIX @ get_value_element_name field_type meta @ ''_''
                                  @ ct_id;
                  x1 = (if has_content v
                        then replace placeholder
                               (if field_type = ''XdBoolean''
                                  then (if py_truth v then ''true'' else ''false'')
                                else if field_type = ''XdTemporal''
                                  then escape_xml (format_temporal_value v
                                         (case m_temporal_types meta of
                                            Some (t # ts) \<Rightarrow> t
                                          | _ \<Rightarrow> ''date''))
                                else escape_xml (str_of v))
                               xml_content
                        else xml_content);
                  x2 = replace_optional_metadata x1 ct_id field_meta
              in replace_units_placeholder field_metadata x2 ct_id field_meta field_label
                   field_type))"

text \<open>\<open>_replace_field_placeholders\<close>\<close>

definition replace_field_placeholders ::
  "(string \<times> field_meta) list \<Rightarrow> string \<Rightarrow> (string \<times> pyval) list
     \<Rightarrow> (string \<times> field_override) list \<Rightarrow> string" where
  "replace_field_placeholders field_metadata xml_content form_data metadata_dict =
     foldl (replace_one_field field_metadata form_data metadata_dict) xml_content field_metadata"

text \<open>
  \<open>_string_based_prune\<close>: a line is dropped when it holds both the comment marker and a
  placeholder. The inner loop over the optional elements only continues itself, so every
  other line is kept.
\<close>

definition string_based_prune :: "string \<Rightarrow> string" where
  "string_based_prune xml_content =
     join nl (filter (\<lambda>line. \<not> (in_str ''<!-- Optional:'' line \<and> in_str PLACEHOLDER_PREFIX line))
                (split (CHR 0x0A) xml_content))"

section \<open>Document Builder, tree phase (\<open>xml_builder.py\<close>)\<close>

text \<open>
  A node of the tree that \<open>lxml\<close> parses: an element, or a comment (whose \<open>tag\<close> is a
  function, which is how the source tells it from an element). Tail text is left out, as
  for \<open>etree\<close>.
\<close>

datatype lxml =
  LElement (ltag: string) (lattrib: "(string \<times> string) list") (ltext: "string option")
    (lchildren: "lxml list")
| LComment string

definition SDC4_NS :: string where
  "SDC4_NS = ''https://semanticdatacharter.com/ns/sdc4/''"

definition EV_CODES :: "(string \<times> string) list" where
  "EV_CODES =
     [(''NI'', ''No Information''), (''MSK'', ''Masked''), (''INV'', ''Invalid''),
      (''DER'', ''Derived''), (''UNC'', ''Unencoded''), (''OTH'', ''Other''),
      (''NINF'', ''Negative Infinity''), (''PINF'', ''Positive Infinity''),
      (''ASKR'', ''Asked and Refused''), (''NASK'', ''Not Asked''), (''NAV'', ''Not Available''),
      (''NA'', ''Not Applicable''), (''TRC'', ''Trace''), (''ASKU'', ''Asked but Unknown''),
      (''UNK'', ''Unknown''), (''QS'', ''Sufficient Quantity'')]"

definition OPTIONAL_ELEMENTS :: "string list" where
  "OPTIONAL_ELEMENTS =
     [''act'', ''vtb'', ''vte'', ''tr'', ''modified'', ''latitude'', ''longitude'',
      ''normal-status'', ''magnitude-status'', ''accuracy_margin'', ''precision_digits'',
      ''xdstring-language'']"

definition OPTIONAL_CONTAINER_ELEMENTS :: "string list" where
  "OPTIONAL_CONTAINER_ELEMENTS = [''subject'', ''provider'', ''protocol'', ''workflow'', ''acs'']"

definition REQUIRED_ELEMENTS :: "string list" where
  "REQUIRED_ELEMENTS = [''creation_timestamp'', ''instance_id'', ''instance_version'', ''current-state'']"

text \<open>
  What the builder takes from its surroundings: the clock reading
  \<open>datetime.utcnow().isoformat()\<close>, the identifier that \<open>cuid_generator()\<close> returns, and
  the order in which the set \<open>OPTIONAL_CONTAINER_ELEMENTS\<close> is iterated.
\<close>

record build_env =
  now :: string
  new_cuid :: string
  container_order :: "string list"

text \<open>\<open>REQUIRED_ELEMENTS_DEFAULTS[tag_name]()\<close>\<close>

definition required_default :: "build_env \<Rightarrow> string \<Rightarrow> string" where
  "required_default env tag_name =
     (if tag_name = ''creation_timestamp'' then now env
      else if tag_name = ''instance_id'' then ''i-'' @ new_cuid env
      else if tag_name = ''instance_version'' then ''1.0''
      else [])"

text \<open>\<open>etree.QName(tag).localname if '}' in tag else tag\<close>\<close>

definition localname :: "string \<Rightarrow> string" where
  "localname t =
     (if in_str ''}'' t then drop (Suc (length (takeWhile (\<lambda>c. c \<noteq> CHR ''}'') t))) t else t)"

text \<open>
  The dictionary \<open>ev_map\<close> of \<open>_process_ev_and_prune\<close>: for every entry of the table whose
  runtime metadata selects one of the sixteen codes, the entry's \<open>ct_id\<close> key (the empty
  string when it has none) is mapped to the code.
\<close>

definition build_ev_map ::
  "(string \<times> field_meta) list \<Rightarrow> (string \<times> field_override) list \<Rightarrow> (string \<times> string) list" where
  "build_ev_map field_metadata metadata_dict =
     foldl (\<lambda>ev_map (field_name, meta).
              case (case map_of metadata_dict field_name of
                      Some ov \<Rightarrow> o_ev ov | None \<Rightarrow> None) of
                Some ev_code \<Rightarrow>
                  if ev_code \<noteq> [] \<and> ev_code \<in> fst ` set EV_CODES
                  then dict_set ev_map (case m_ct_id meta of Some c \<Rightarrow> c | None \<Rightarrow> []) ev_code
                  else ev_map
              | None \<Rightarrow> ev_map)
       [] field_metadata"

text \<open>The element \<open><sdc4:CODE><ev-name>name</ev-name></sdc4:CODE>\<close> that replaces a placeholder.\<close>

definition ev_element :: "string \<Rightarrow> lxml" where
  "ev_element ev_code =
     LElement (''{'' @ SDC4_NS @ ''}'' @ ev_code) [] None
       [LElement ''ev-name'' [] (Some (case map_of EV_CODES ev_code of
                                         Some n \<Rightarrow> n | None \<Rightarrow> ev_code)) []]"

text \<open>
  \<open>_process_ev_placeholders\<close>. Every \<open>ev-placeholder\<close> below the root is replaced in its
  parent by the EV element when its \<open>ct_id\<close> attribute is a key of \<open>ev_map\<close>, and removed
  otherwise; what lies inside a placeholder goes with it.
\<close>

fun process_ev_placeholders :: "(string \<times> string) list \<Rightarrow> lxml \<Rightarrow> lxml" where
  "process_ev_placeholders ev_map (LComment c) = LComment c"
| "process_ev_placeholders ev_map (LElement t a x cs) =
     LElement t a x
       (concat (map (\<lambda>child.
          case child of
            LComment c \<Rightarrow> [child]
          | LElement t' a' x' cs' \<Rightarrow>
              if t' = ''ev-placeholder''
              then (case map_of a' ''ct_id'' of
                      Some ct_id \<Rightarrow>
                        (if ct_id \<noteq> [] then
                           (case map_of ev_map ct_id of
                              Some ev_code \<Rightarrow> [ev_element ev_code]
                            | None \<Rightarrow> [])
                         else [])
                    | None \<Rightarrow> [])
              else [process_ev_placeholders ev_map child]) cs))"

text \<open>\<open>element.text and marker in element.text\<close>\<close>

definition text_has :: "string \<Rightarrow> string option \<Rightarrow> bool" where
  "text_has marker x = (case x of Some s \<Rightarrow> s \<noteq> [] \<and> in_str marker s | None \<Rightarrow> False)"

text \<open>
  \<open>_find_placeholder_elements\<close> together with the removal loop that follows it. The result
  is the pair of a flag, true when the element was appended to \<open>to_remove\<close>, and the
  element as the traversal leaves it, with the flagged descendants taken out of their
  parents. The caller keeps the root whatever its flag, as the root has no parent.
\<close>

fun find_placeholder_elements :: "build_env \<Rightarrow> lxml \<Rightarrow> bool \<times> lxml" where
  "find_placeholder_elements env (LComment c) = (False, LComment c)"
| "find_placeholder_elements env (LElement t a x cs) =
     (if text_has PLACEHOLDER_PREFIX x \<and> localname t \<notin> set REQUIRED_ELEMENTS
           \<and> localname t \<in> set OPTIONAL_ELEMENTS
      then (True, LElement t a x cs)
      else
        (let x' = (if text_has PLACEHOLDER_PREFIX x \<and> localname t \<in> set REQUIRED_ELEMENTS
                   then Some (required_default env (localname t)) else x);
             cs' = concat (map (\<lambda>child.
                      case find_placeholder_elements env child of
                        (True, _) \<Rightarrow> []
                      | (False, child') \<Rightarrow> [child']) cs)
         in (text_has ''<!-- Optional:'' x', LElement t a x' cs')))"

text \<open>\<open>_is_empty_container\<close>\<close>

fun is_empty_container :: "lxml \<Rightarrow> bool" where
  "is_empty_container (LComment c) = True"
| "is_empty_container (LElement t a x cs) =
     (if cs = []
      then (let txt = strip (case x of Some s \<Rightarrow> s | None \<Rightarrow> [])
            in txt = [] \<or> startswith txt ''<!--'')
      else (\<forall>child \<in> set cs.
              case child of
                LComment c \<Rightarrow> True
              | LElement t' a' x' cs' \<Rightarrow>
                  (let child_text = strip (case x' of Some s \<Rightarrow> s | None \<Rightarrow> [])
                   in \<not> (child_text \<noteq> [] \<and> \<not> startswith child_text ''<!--''
                          \<and> \<not> in_str PLACEHOLDER_PREFIX child_text))
                  \<and> is_empty_container child))"

text \<open>
  One round of \<open>_prune_empty_containers\<close>, for one container name: every descendant with
  that tag that is an empty container is removed from its parent.
\<close>

fun remove_empty_containers :: "string \<Rightarrow> lxml \<Rightarrow> lxml" where
  "remove_empty_containers name (LComment c) = LComment c"
| "remove_empty_containers name (LElement t a x cs) =
     LElement t a x
       (concat (map (\<lambda>child.
          case child of
            LComment c \<Rightarrow> [child]
          | LElement t' a' x' cs' \<Rightarrow>
              if t' = name \<and> is_empty_container child then []
              else [remove_empty_containers name child]) cs))"

definition prune_empty_containers :: "string list \<Rightarrow> lxml \<Rightarrow> lxml" where
  "prune_empty_containers order root = foldl (\<lambda>r name. remove_empty_containers name r) root order"

text \<open>\<open>_remove_comments\<close>: every comment that has a parent is removed.\<close>

fun remove_comments :: "lxml \<Rightarrow> lxml" where
  "remove_comments (LComment c) = LComment c"
| "remove_comments (LElement t a x cs) =
     LElement t a x
       (concat (map (\<lambda>child.
          case child of
            LComment c \<Rightarrow> []
          | LElement t' a' x' cs' \<Rightarrow> [remove_comments child]) cs))"

text \<open>The tree between parsing and serialising in \<open>_process_ev_and_prune\<close>.\<close>

definition process_tree :: "build_env \<Rightarrow> (string \<times> string) list \<Rightarrow> lxml \<Rightarrow> lxml" where
  "process_tree env ev_map root =
     remove_comments
       (prune_empty_containers (container_order env)
          (snd (find_placeholder_elements env (process_ev_placeholders ev_map root))))"

text \<open>
  \<open>_prune_unused_elements\<close> and \<open>_process_ev_and_prune\<close>. \<open>lxml_fromstring\<close> is
  \<open>etree.fromstring\<close>, with \<open>None\<close> for \<open>XMLSyntaxError\<close>; \<open>lxml_tostring\<close> is
  \<open>etree.tostring\<close> with pretty printing, decoded.
\<close>

definition prune_unused_elements ::
  "(string \<Rightarrow> lxml option) \<Rightarrow> (lxml \<Rightarrow> string) \<Rightarrow> build_env \<Rightarrow> string \<Rightarrow> string" where
  "prune_unused_elements lxml_fromstring lxml_tostring env xml_content =
     (case lxml_fromstring xml_content of
        Some root \<Rightarrow> lxml_tostring (snd (find_placeholder_elements env root))
      | None \<Rightarrow> string_based_prune xml_content)"

definition process_ev_and_prune ::
  "(string \<Rightarrow> lxml option) \<Rightarrow> (lxml \<Rightarrow> string) \<Rightarrow> build_env \<Rightarrow> (string \<times> field_meta) list
     \<Rightarrow> string \<Rightarrow> (string \<times> field_override) list \<Rightarrow> string" where
  "process_ev_and_prune lxml_fromstring lxml_tostring env field_metadata xml_content metadata_dict =
     (case lxml_fromstring xml_content of
        Some root \<Rightarrow>
          lxml_tostring (process_tree env (build_ev_map field_metadata metadata_dict) root)
      | None \<Rightarrow> prune_unused_elements lxml_fromstring lxml_tostring env xml_content)"

text \<open>
  \<open>build_from_form\<close> on a builder whose skeleton was loaded. (Without a skeleton the source
  builds the tree programmatically.)
\<close>

definition build_from_form ::
  "(string \<Rightarrow> lxml option) \<Rightarrow> (lxml \<Rightarrow> string) \<Rightarrow> build_env \<Rightarrow> (string \<times> field_meta) list
     \<Rightarrow> string \<Rightarrow> string \<Rightarrow> (string \<times> pyval) list \<Rightarrow> (string \<times> field_override) list \<Rightarrow> string" where
  "build_from_form lxml_fromstring lxml_tostring env field_metadata skeleton_xml instance_id
       form_data metadata =
     process_ev_and_prune lxml_fromstring lxml_tostring env field_metadata
       (replace_field_placeholders field_metadata
          (replace_metadata_placeholders (now env) skeleton_xml instance_id) form_data metadata)
       metadata"

text \<open>The parsed tree on which the tree phase of \<open>build_from_form\<close> works.\<close>

definition built_tree ::
  "build_env \<Rightarrow> (string \<times> field_meta) list \<Rightarrow> (string \<times> field_override) list \<Rightarrow> lxml \<Rightarrow> lxml" where
  "built_tree env field_metadata metadata root =
     process_tree env (build_ev_map field_metadata metadata) root"

section \<open>Specification vocabulary\<close>

text \<open>A message mentions a word when its text, letter case ignored, contains the word.\<close>

definition mentions :: "string \<Rightarrow> string \<Rightarrow> bool" where
  "mentions w msg \<longleftrightarrow> (\<exists>pre post. lower msg = pre @ w @ post)"

definition mentions_any :: "string list \<Rightarrow> string \<Rightarrow> bool" where
  "mentions_any ws msg \<longleftrightarrow> (\<exists>w \<in> set ws. mentions w msg)"

text \<open>A parser for the examples: it accepts one document and rejects every other string.\<close>

definition sample_fromstring :: "string \<Rightarrow> etree option" where
  "sample_fromstring s = (if s = ''<a/>'' then Some (Element ''a'' [] None []) else None)"

text \<open>A string is wrapped in quotes when it begins and ends with a double quote.\<close>

definition wrapped_in_quotes :: "string \<Rightarrow> bool" where
  "wrapped_in_quotes s \<longleftrightarrow> 2 \<le> length s \<and> hd s = CHR 0x22 \<and> last s = CHR 0x22"

text \<open>The escape of one character, to which the five replacements of \<open>_escape_turtle\<close> amount.\<close>

definition turtle_escape_char :: "char \<Rightarrow> string" where
  "turtle_escape_char x =
     (if x = CHR 0x5C then [CHR 0x5C, CHR 0x5C]
      else if x = CHR 0x22 then [CHR 0x5C, CHR 0x22]
      else if x = CHR 0x0A then [CHR 0x5C, CHR ''n'']
      else if x = CHR 0x0D then [CHR 0x5C, CHR ''r'']
      else if x = CHR 0x09 then [CHR 0x5C, CHR ''t'']
      else [x])"

text \<open>The kinds whose literal is emitted as a native Turtle literal.\<close>

definition NATIVE_KINDS :: "string list" where
  "NATIVE_KINDS = [''XdBoolean'', ''XdCount'', ''XdOrdinal'', ''XdQuantity'', ''XdFloat'', ''XdDouble'']"

text \<open>
  An element stays through the tree phase with its tag and text when it is no
  \<open>ev-placeholder\<close> and no optional container, its text does not hold the comment marker,
  and, if its text holds the placeholder sentinel, its local name is neither in the
  optional-leaf set nor in the required-with-default set.
\<close>

fun stays :: "lxml \<Rightarrow> bool" where
  "stays (LComment c) = False"
| "stays (LElement t a x cs) =
     (t \<noteq> ''ev-placeholder'' \<and> t \<notin> set OPTIONAL_CONTAINER_ELEMENTS \<and>
      (text_has PLACEHOLDER_PREFIX x \<longrightarrow>
         localname t \<notin> set OPTIONAL_ELEMENTS \<and> localname t \<notin> set REQUIRED_ELEMENTS) \<and>
      \<not> text_has ''<!-- Optional:'' x)"

text \<open>\<open>inside e d\<close>: \<open>d\<close> is \<open>e\<close> or lies below \<open>e\<close>, and every element from \<open>e\<close> down to \<open>d\<close> stays.\<close>

inductive inside :: "lxml \<Rightarrow> lxml \<Rightarrow> bool" where
  here: "stays e \<Longrightarrow> inside e e"
| below: "stays (LElement t a x cs) \<Longrightarrow> c \<in> set cs \<Longrightarrow> inside c d \<Longrightarrow> inside (LElement t a x cs) d"

text \<open>A property of every node below an element.\<close>

fun all_below :: "(lxml \<Rightarrow> bool) \<Rightarrow> lxml \<Rightarrow> bool" where
  "all_below Q (LComment c) = True"
| "all_below Q (LElement t a x cs) = (\<forall>c \<in> set cs. Q c \<and> all_below Q c)"

text \<open>An optional leaf element that was not populated: its text still holds the sentinel.\<close>

fun unpopulated_optional :: "lxml \<Rightarrow> bool" where
  "unpopulated_optional (LComment c) = False"
| "unpopulated_optional (LElement t a x cs) =
     (localname t \<in> set OPTIONAL_ELEMENTS \<and> text_has PLACEHOLDER_PREFIX x)"

text \<open>Sample data for the examples.\<close>

definition sample_env :: build_env where
  "sample_env = \<lparr>now = ''2024-01-01T00:00:00'', new_cuid = ''c1'',
      container_order = OPTIONAL_CONTAINER_ELEMENTS\<rparr>"



text \<open>
  Modelled from the spec: the skeleton file \<open>xml_skeleton.xml\<close> is not part of the
  sources. The tree below is what is parsed from a skeleton for one \<open>XdCount\<close> field after
  the substitution of its value: the value element, the units element with the two
  placeholders that \<open>_replace_units_placeholder\<close> looks for, two optional leaf elements
  with their placeholders, and the \<open>ev-placeholder\<close>.
\<close>

definition sample_count_doc :: "string \<Rightarrow> string \<Rightarrow> lxml" where
  "sample_count_doc units_label units_value =
     LElement ''dm-d1'' [] None
       [LElement ''ms-abc123'' [] None
          [LElement ''label'' [] (Some ''Population'') [],
           LElement ''xdcount-value'' [] (Some ''42'') [],
           LElement ''xdcount-units'' [] None
             [LElement ''label'' [] (Some units_label) [],
              LElement ''xdstring-value'' [] (Some units_value) []],
           LElement ''vtb'' [] (Some ''__PLACEHOLDER__vtb_abc123'') [],
           LElement ''latitude'' [] (Some ''__PLACEHOLDER__latitude_abc123'') [],
           LElement ''ev-placeholder'' [(''ct_id'', ''abc123'')] None []]]"

text \<open>
  What \<open>ElementTree\<close> reads from the serialised tree: the same elements with their tags,
  attributes and text, the comments dropped.
\<close>

fun read_back :: "lxml \<Rightarrow> etree list" where
  "read_back (LComment c) = []"
| "read_back (LElement t a x cs) = [Element t a x (concat (map read_back cs))]"

text \<open>The table entry of an \<open>XdCount\<close> field with units, for the examples.\<close>

definition sample_count_meta :: field_meta where
  "sample_count_meta =
     \<lparr>m_label = Some ''Population'', m_type = Some ''XdCount'', m_ct_id = Some ''abc123'',
       m_adapter_ctid = None,
       m_units = Some \<lparr>u_ct_id = Some ''u1'', u_label = Some ''Unit'', u_symbols = [''people''],
                        u_def_val = Some ''people''\<rparr>,
       m_temporal_types = None, m_other_keys = []\<rparr>"

definition sample_count_etree :: etree where
  "sample_count_etree =
     Element ''dm-d1'' [] None
       [Element ''ms-abc123'' [] None
          [Element ''label'' [] (Some ''Population'') [],
           Element ''xdcount-value'' [] (Some ''42'') [],
           Element ''xdcount-units'' [] None
             [Element ''label'' [] (Some ''Unit'') [],
              Element ''xdstring-value'' [] (Some ''people'') []]]]"

text \<open>An optional leaf element: its local name is in the optional-leaf set.\<close>

fun optional_leaf :: "lxml \<Rightarrow> bool" where
  "optional_leaf (LComment c) = False"
| "optional_leaf (LElement t a x cs) = (localname t \<in> set OPTIONAL_ELEMENTS)"

text \<open>
  A serialiser for the examples: tags, attributes and escaped text, written without
  white space between the elements.
\<close>

fun sample_tostring :: "lxml \<Rightarrow> string" where
  "sample_tostring (LComment c) = ''<!--'' @ c @ ''-->''"
| "sample_tostring (LElement t a x cs) =
     ''<'' @ t @ concat (map (\<lambda>(k, v). '' '' @ k @ ''='' @ dq @ v @ dq) a) @ ''>''
       @ (case x of Some s \<Rightarrow> escape_xml s | None \<Rightarrow> [])
       @ concat (map sample_tostring cs) @ ''</'' @ t @ ''>''"


text \<open>
  Modelled from the spec: the skeleton file \<open>xml_skeleton.xml\<close> is not part of the
  sources. The string below is the text of which \<open>sample_count_doc\<close>, with the two units
  placeholders, is the tree: a skeleton for one \<open>XdCount\<close> field, with \<open>value_text\<close> where
  the value element has its text.
\<close>

definition sample_count_xml :: "string \<Rightarrow> string" where
  "sample_count_xml value_text =
     ''<dm-d1><ms-abc123><label>Population</label><xdcount-value>'' @ value_text
       @ ''</xdcount-value><xdcount-units><label>__PLACEHOLDER__label_u1</label>''
       @ ''<xdstring-value>__PLACEHOLDER__xdstring-value_u1</xdstring-value></xdcount-units>''
       @ ''<vtb>__PLACEHOLDER__vtb_abc123</vtb><latitude>__PLACEHOLDER__latitude_abc123</latitude>''
       @ ''<ev-placeholder ct_id='' @ dq @ ''abc123'' @ dq @ ''/></ms-abc123></dm-d1>''"

section \<open>Properties of the string functions\<close>

lemma startswith_iff: "startswith s p \<longleftrightarrow> (\<exists>r. s = p @ r)"
  by (induction s p rule: startswith.induct) auto

lemma in_str_iff: "in_str sub s \<longleftrightarrow> (\<exists>pre post. s = pre @ sub @ post)"
proof (induction s)
  case Nil
  then show ?case by auto
next
  case (Cons c cs)
  show ?case
  proof
    assume "in_str sub (c # cs)"
    then consider "startswith (c # cs) sub" | "in_str sub cs" by auto
    then show "\<exists>pre post. c # cs = pre @ sub @ post"
    proof cases
      case 1
      then obtain r where "c # cs = sub @ r" by (auto simp: startswith_iff)
      then have "c # cs = [] @ sub @ r" by simp
      then show ?thesis by blast
    next
      case 2
      then obtain pre post where "cs = pre @ sub @ post" using Cons.IH by auto
      then have "c # cs = (c # pre) @ sub @ post" by simp
      then show ?thesis by blast
    qed
  next
    assume "\<exists>pre post. c # cs = pre @ sub @ post"
    then obtain pre post where eq: "c # cs = pre @ sub @ post" by auto
    show "in_str sub (c # cs)"
    proof (cases pre)
      case Nil
      then have "startswith (c # cs) sub" using eq by (auto simp: startswith_iff)
      then show ?thesis by simp
    next
      case (Cons d pre')
      then have "cs = pre' @ sub @ post" using eq by simp
      then have "in_str sub cs" using Cons.IH by auto
      then show ?thesis by simp
    qed
  qed
qed

lemma mentions_code: "mentions w msg \<longleftrightarrow> in_str w (lower msg)"
  by (simp add: mentions_def in_str_iff)

lemma mentions_any_code: "mentions_any ws msg \<longleftrightarrow> (\<exists>w \<in> set ws. in_str w (lower msg))"
  by (simp add: mentions_any_def mentions_code)

section \<open>Properties of paths and of the Corrector\<close>

lemma first_path_valid_path:
  "first_path P e = Some p \<Longrightarrow> valid_path e p"
  "first_path_list P i cs = Some q \<Longrightarrow>
     \<exists>k p. q = (i + k) # p \<and> k < length cs \<and> valid_path (cs ! k) p"
proof (induction P e and P i cs arbitrary: p and q rule: first_path_first_path_list.induct)
  case (1 P t a x cs)
  show ?case
  proof (cases "P (Element t a x cs)")
    case True
    then show ?thesis using "1.prems" by simp
  next
    case False
    then have "first_path_list P 0 cs = Some p" using "1.prems" by simp
    then obtain k p' where "p = (0 + k) # p'" "k < length cs" "valid_path (cs ! k) p'"
      using "1.IH"[OF False] by blast
    then show ?thesis by simp
  qed
next
  case (2 P i)
  then show ?case by simp
next
  case (3 P i c cs)
  show ?case
  proof (cases "first_path P c")
    case None
    then have "first_path_list P (Suc i) cs = Some q" using "3.prems" by simp
    then obtain k p where "q = (Suc i + k) # p" "k < length cs" "valid_path (cs ! k) p"
      using "3.IH"(2)[OF None] by blast
    then have "q = (i + Suc k) # p \<and> Suc k < length (c # cs) \<and> valid_path ((c # cs) ! Suc k) p"
      by simp
    then show ?thesis by blast
  next
    case (Some p)
    then have "q = (i + 0) # p \<and> 0 < length (c # cs) \<and> valid_path ((c # cs) ! 0) p"
      using "3.prems" "3.IH"(1)[OF Some] by simp
    then show ?thesis by blast
  qed
qed

lemma get_at_update_at:
  "valid_path e p \<Longrightarrow> get_at (update_at f p e) p = f (get_at e p)"
proof (induction p arbitrary: e)
  case Nil
  then show ?case by simp
next
  case (Cons i p)
  then show ?case by (cases e) simp
qed

lemma children_correct_component:
  "correct_component cid msg elem = Inr (elem', lbl) \<Longrightarrow>
     children elem' \<noteq> [] \<and>
     last (children elem') = Element ''exceptional-value'' [] (Some (choose_ev_for_error msg)) []"
  by (auto simp: correct_component_def Let_def split: sum.splits option.splits list.splits)

section \<open>Properties of the Turtle escape\<close>

lemma replace_from_single:
  "replace_from [c] r 0 s = concat (map (\<lambda>x. if x = c then r else [x]) s)"
  by (induction s) auto

lemma replace_single:
  "replace [c] r s = concat (map (\<lambda>x. if x = c then r else [x]) s)"
  by (simp add: replace_def replace_from_single)

lemma concat_map_concat_map:
  "concat (map f (concat (map g s))) = concat (map (\<lambda>x. concat (map f (g x))) s)"
  by (induction s) auto

lemma escape_turtle_chars:
  "escape_turtle (Some s) = concat (map turtle_escape_char s)"
proof -
  have "escape_turtle (Some s) = concat (map (\<lambda>x.
      concat (map (\<lambda>x. if x = CHR 0x09 then [CHR 0x5C, CHR ''t''] else [x])
       (concat (map (\<lambda>x. if x = CHR 0x0D then [CHR 0x5C, CHR ''r''] else [x])
         (concat (map (\<lambda>x. if x = CHR 0x0A then [CHR 0x5C, CHR ''n''] else [x])
           (concat (map (\<lambda>x. if x = CHR 0x22 then [CHR 0x5C, CHR 0x22] else [x])
             (if x = CHR 0x5C then [CHR 0x5C, CHR 0x5C] else [x]))))))))) s)"
    by (simp add: escape_turtle_def replace_single concat_map_concat_map)
  also have "\<dots> = concat (map turtle_escape_char s)"
    by (rule arg_cong[where f=concat], rule map_cong, simp, simp add: turtle_escape_char_def)
  finally show ?thesis .
qed

lemma turtle_unescape_escape_char:
  "turtle_unescape (turtle_escape_char x @ rest) = map_option (\<lambda>r. x # r) (turtle_unescape rest)"
  by (cases rest) (auto simp: turtle_escape_char_def)

lemma turtle_unescape_escape:
  "turtle_unescape (concat (map turtle_escape_char s)) = Some s"
  by (induction s) (simp_all add: turtle_unescape_escape_char)

lemma turtle_read_quoted: "turtle_read_literal (dq @ e @ dq) = turtle_unescape e"
  by (simp add: turtle_read_literal_def dq_def butlast_append)

lemma close_description_nth1:
  "close_description (a # b # c # rest) ! Suc 0 = b"
  by (simp add: close_description_def butlast_append nth_append)

section \<open>Properties of the string phase\<close>

lemma split_nonempty: "split c s \<noteq> []"
  by (induction s) (auto split: list.splits)

lemma split_hd: "split c s ! 0 = takeWhile (\<lambda>x. x \<noteq> c) s"
proof (induction s)
  case Nil
  then show ?case by simp
next
  case (Cons x xs)
  then show ?case using split_nonempty[of c xs] by (cases "split c xs") auto
qed

lemma in_str_single: "in_str [c] s \<longleftrightarrow> c \<in> set s"
  by (induction s) auto

lemma takeWhile_twice:
  "takeWhile P (takeWhile Q s) = takeWhile (\<lambda>x. Q x \<and> P x) s"
  by (induction s) auto

lemma takeWhile_absent: "c \<notin> set s \<Longrightarrow> takeWhile (\<lambda>x. x \<noteq> c) s = s"
  by (induction s) auto

lemma cut_at_first:
  "(if in_str [c] s then split c s ! 0 else s) = takeWhile (\<lambda>x. x \<noteq> c) s"
  by (simp add: in_str_single split_hd takeWhile_absent)

lemma format_date_string:
  "s \<noteq> [] \<Longrightarrow> format_temporal_value (PStr s) ''date''
      = takeWhile (\<lambda>c. c \<noteq> CHR '' '' \<and> c \<noteq> CHR ''T'') s"
  unfolding format_temporal_value_def Let_def cut_at_first
  by (simp add: takeWhile_twice)

section \<open>Properties of the tree phase\<close>

lemma stays_elem: "stays e \<Longrightarrow> \<exists>t a x cs. e = LElement t a x cs"
  by (cases e) auto

lemma pev_shape: "stays e \<Longrightarrow> stays (process_ev_placeholders m e) \<and>
   ltag (process_ev_placeholders m e) = ltag e \<and> ltext (process_ev_placeholders m e) = ltext e"
  by (cases e) auto

lemma pev_child:
  "c \<in> set cs \<Longrightarrow> stays c \<Longrightarrow>
   process_ev_placeholders m c \<in> set (lchildren (process_ev_placeholders m (LElement t a x cs)))"
  by (cases c) (auto intro!: bexI[where x=c])


lemma fpe_shape: "stays e \<Longrightarrow> \<not> fst (find_placeholder_elements env e) \<and>
   stays (snd (find_placeholder_elements env e)) \<and>
   ltag (snd (find_placeholder_elements env e)) = ltag e \<and>
   ltext (snd (find_placeholder_elements env e)) = ltext e"
  by (cases e) (auto simp: Let_def)

lemma concat_flagged:
  "concat (map (\<lambda>c. case f c of (True, u) \<Rightarrow> [] | (False, c') \<Rightarrow> [c']) cs)
     = map (\<lambda>c. snd (f c)) (filter (\<lambda>c. \<not> fst (f c)) cs)"
  by (induction cs) (auto split: prod.splits)

lemma fpe_children:
  "\<not> (text_has PLACEHOLDER_PREFIX x \<and> localname t \<notin> set REQUIRED_ELEMENTS
        \<and> localname t \<in> set OPTIONAL_ELEMENTS) \<Longrightarrow>
   lchildren (snd (find_placeholder_elements env (LElement t a x cs)))
     = map (\<lambda>c. snd (find_placeholder_elements env c))
         (filter (\<lambda>c. \<not> fst (find_placeholder_elements env c)) cs)"
  by (auto simp: Let_def concat_flagged)

lemma fpe_child:
  "stays (LElement t a x cs) \<Longrightarrow> c \<in> set cs \<Longrightarrow> stays c \<Longrightarrow>
   snd (find_placeholder_elements env c)
     \<in> set (lchildren (snd (find_placeholder_elements env (LElement t a x cs))))"
proof -
  assume s: "stays (LElement t a x cs)" and c: "c \<in> set cs" and sc: "stays c"
  have e: "\<not> (text_has PLACEHOLDER_PREFIX x \<and> localname t \<notin> set REQUIRED_ELEMENTS
        \<and> localname t \<in> set OPTIONAL_ELEMENTS)"
    using s by auto
  have "\<not> fst (find_placeholder_elements env c)" using fpe_shape[OF sc] by simp
  then show ?thesis
    unfolding fpe_children[OF e] using c by auto
qed

lemma rec_shape: "stays e \<Longrightarrow> stays (remove_empty_containers name e) \<and>
   ltag (remove_empty_containers name e) = ltag e \<and> ltext (remove_empty_containers name e) = ltext e"
  by (cases e) auto

lemma rec_child:
  "name \<in> set OPTIONAL_CONTAINER_ELEMENTS \<Longrightarrow> c \<in> set cs \<Longrightarrow> stays c \<Longrightarrow>
   remove_empty_containers name c
     \<in> set (lchildren (remove_empty_containers name (LElement t a x cs)))"
  by (cases c) (auto intro!: bexI[where x=c])

lemma rc_shape: "stays e \<Longrightarrow> stays (remove_comments e) \<and>
   ltag (remove_comments e) = ltag e \<and> ltext (remove_comments e) = ltext e"
  by (cases e) auto

lemma rc_child:
  "c \<in> set cs \<Longrightarrow> stays c \<Longrightarrow>
   remove_comments c \<in> set (lchildren (remove_comments (LElement t a x cs)))"
  by (cases c) (auto intro!: bexI[where x=c])


lemma pec_shape:
  "stays e \<Longrightarrow> stays (prune_empty_containers order e) \<and>
   ltag (prune_empty_containers order e) = ltag e \<and>
   ltext (prune_empty_containers order e) = ltext e"
  unfolding prune_empty_containers_def
  by (induction order arbitrary: e) (simp_all add: rec_shape)

lemma pec_child:
  "set order \<subseteq> set OPTIONAL_CONTAINER_ELEMENTS \<Longrightarrow> stays e \<Longrightarrow> c \<in> set (lchildren e) \<Longrightarrow>
   stays c \<Longrightarrow>
   prune_empty_containers order c \<in> set (lchildren (prune_empty_containers order e))"
  unfolding prune_empty_containers_def
proof (induction order arbitrary: e c)
  case Nil
  then show ?case by simp
next
  case (Cons name order)
  from Cons.prems(2) obtain t a x cs where e: "e = LElement t a x cs"
    using stays_elem by blast
  have n: "name \<in> set OPTIONAL_CONTAINER_ELEMENTS" using Cons.prems(1) by simp
  have "remove_empty_containers name c \<in> set (lchildren (remove_empty_containers name e))"
    unfolding e using rec_child[OF n _ Cons.prems(4)] Cons.prems(3) e by simp
  moreover have "stays (remove_empty_containers name e)" "stays (remove_empty_containers name c)"
    using rec_shape Cons.prems by blast+
  moreover have "set order \<subseteq> set OPTIONAL_CONTAINER_ELEMENTS" using Cons.prems(1) by simp
  ultimately show ?case using Cons.IH by simp
qed

lemma pt_shape:
  "stays e \<Longrightarrow> stays (process_tree env m e) \<and> ltag (process_tree env m e) = ltag e \<and>
   ltext (process_tree env m e) = ltext e"
  unfolding process_tree_def
  using pev_shape[of e m] fpe_shape[of "process_ev_placeholders m e" env]
    pec_shape[of "snd (find_placeholder_elements env (process_ev_placeholders m e))"
      "container_order env"]
    rc_shape[of "prune_empty_containers (container_order env)
      (snd (find_placeholder_elements env (process_ev_placeholders m e)))"]
  by simp

lemma pt_child:
  assumes o: "set (container_order env) \<subseteq> set OPTIONAL_CONTAINER_ELEMENTS"
    and e: "stays e" and c: "c \<in> set (lchildren e)" and sc: "stays c"
  shows "process_tree env m c \<in> set (lchildren (process_tree env m e))"
proof -
  let ?e1 = "process_ev_placeholders m e" and ?c1 = "process_ev_placeholders m c"
  let ?e2 = "snd (find_placeholder_elements env ?e1)"
  let ?c2 = "snd (find_placeholder_elements env ?c1)"
  let ?e3 = "prune_empty_containers (container_order env) ?e2"
  let ?c3 = "prune_empty_containers (container_order env) ?c2"
  from e obtain t a x cs where ee: "e = LElement t a x cs" using stays_elem by blast
  have s1: "stays ?e1" "stays ?c1" using pev_shape e sc by blast+
  have k1: "?c1 \<in> set (lchildren ?e1)" using pev_child[OF _ sc] c ee by simp
  from s1(1) obtain t1 a1 x1 cs1 where e1: "?e1 = LElement t1 a1 x1 cs1" using stays_elem by blast
  have s2: "stays ?e2" "stays ?c2" using fpe_shape s1 by blast+
  have k2: "?c2 \<in> set (lchildren ?e2)"
    using fpe_child[of t1 a1 x1 cs1 ?c1 env] s1 k1 e1 by simp
  have s3: "stays ?e3" "stays ?c3" using pec_shape s2 by blast+
  have k3: "?c3 \<in> set (lchildren ?e3)" using pec_child[OF o s2(1) k2 s2(2)] .
  from s3(1) obtain t3 a3 x3 cs3 where e3: "?e3 = LElement t3 a3 x3 cs3" using stays_elem by blast
  have "remove_comments ?c3 \<in> set (lchildren (remove_comments ?e3))"
    using rc_child[of ?c3 cs3 t3 a3 x3] k3 s3(2) e3 by simp
  then show ?thesis by (simp add: process_tree_def)
qed

lemma pt_inside:
  assumes o: "set (container_order env) \<subseteq> set OPTIONAL_CONTAINER_ELEMENTS"
  shows "inside e d \<Longrightarrow> inside (process_tree env m e) (process_tree env m d)"
proof (induction rule: inside.induct)
  case (here e)
  then show ?case using pt_shape inside.here by blast
next
  case (below t a x cs c d)
  let ?E = "process_tree env m (LElement t a x cs)"
  have sE: "stays ?E" using pt_shape below.hyps(1) by blast
  then obtain t' a' x' cs' where E: "?E = LElement t' a' x' cs'" using stays_elem by blast
  have sc: "stays c" using below.hyps(3) by (cases rule: inside.cases) auto
  have "process_tree env m c \<in> set (lchildren ?E)"
    using pt_child[OF o below.hyps(1) _ sc] below.hyps(2) by simp
  then have "process_tree env m c \<in> set cs'" using E by simp
  then show ?case using inside.below[of t' a' x' cs'] sE E below.IH by simp
qed

lemma map_of_dict_set: "map_of (dict_set d k v) = (map_of d)(k \<mapsto> v)"
  by (induction d) (auto simp: fun_eq_iff)

lemma build_ev_map_codes_aux:
  "(\<forall>k v. map_of acc k = Some v \<longrightarrow> v \<in> fst ` set EV_CODES) \<Longrightarrow>
   map_of (foldl (\<lambda>ev_map (field_name, meta).
              case (case map_of metadata_dict field_name of
                      Some ov \<Rightarrow> o_ev ov | None \<Rightarrow> None) of
                Some ev_code \<Rightarrow>
                  if ev_code \<noteq> [] \<and> ev_code \<in> fst ` set EV_CODES
                  then dict_set ev_map (case m_ct_id meta of Some c \<Rightarrow> c | None \<Rightarrow> []) ev_code
                  else ev_map
              | None \<Rightarrow> ev_map) acc fm) ct_id = Some code \<Longrightarrow>
   code \<in> fst ` set EV_CODES"
proof (induction fm arbitrary: acc)
  case Nil
  then show ?case by simp
next
  case (Cons entry fm)
  obtain field_name meta where en: "entry = (field_name, meta)" by (cases entry)
  show ?case
    apply (rule Cons.IH[of "(case (case map_of metadata_dict field_name of
                      Some ov \<Rightarrow> o_ev ov | None \<Rightarrow> None) of
                Some ev_code \<Rightarrow>
                  if ev_code \<noteq> [] \<and> ev_code \<in> fst ` set EV_CODES
                  then dict_set acc (case m_ct_id meta of Some c \<Rightarrow> c | None \<Rightarrow> []) ev_code
                  else acc
              | None \<Rightarrow> acc)"])
    using Cons.prems(1) apply (auto simp: map_of_dict_set split: option.splits)[1]
    using Cons.prems(2) en apply simp
    done
qed

lemma build_ev_map_codes:
  "map_of (build_ev_map field_metadata metadata_dict) ct_id = Some code \<Longrightarrow>
   code \<in> fst ` set EV_CODES"
  unfolding build_ev_map_def by (rule build_ev_map_codes_aux[of "[]"]) auto











lemma inside_stays: "inside e d \<Longrightarrow> stays d"
  by (induction rule: inside.induct) auto


lemma string_of_int_42: "string_of_int 42 = ''42''"
  by (simp add: string_of_int_def string_of_nat.simps[of 42] string_of_nat.simps[of 4]
      digit_char_def)

lemma concat_map_image:
  "d \<in> set (concat (map f cs)) \<Longrightarrow> (\<And>c. set (f c) \<subseteq> {g c}) \<Longrightarrow> \<exists>c \<in> set cs. d = g c"
  by fastforce

lemma rec_children:
  assumes "d \<in> set (lchildren (remove_empty_containers name (LElement t a x cs)))"
  shows "\<exists>c \<in> set cs. d = remove_empty_containers name c"
proof -
  let ?f = "\<lambda>child. case child of
            LComment c \<Rightarrow> [child]
          | LElement t' a' x' cs' \<Rightarrow>
              if t' = name \<and> is_empty_container child then []
              else [remove_empty_containers name child]"
  have m: "d \<in> set (concat (map ?f cs))"
    using assms by (simp only: remove_empty_containers.simps lxml.sel)
  have s: "\<And>c. set (?f c) \<subseteq> {remove_empty_containers name c}"
    subgoal for c by (cases c) auto
    done
  show ?thesis by (rule concat_map_image[OF m s])
qed

lemma rc_children:
  assumes "d \<in> set (lchildren (remove_comments (LElement t a x cs)))"
  shows "\<exists>c \<in> set cs. d = remove_comments c"
proof -
  let ?f = "\<lambda>child. case child of
            LComment c \<Rightarrow> []
          | LElement t' a' x' cs' \<Rightarrow> [remove_comments child]"
  have m: "d \<in> set (concat (map ?f cs))"
    using assms by (simp only: remove_comments.simps lxml.sel)
  have s: "\<And>c. set (?f c) \<subseteq> {remove_comments c}"
    subgoal for c by (cases c) auto
    done
  show ?thesis by (rule concat_map_image[OF m s])
qed

lemma unpopulated_pev:
  "unpopulated_optional (process_ev_placeholders m e) = unpopulated_optional e"
  by (cases e) auto

lemma escape_xml_42: "escape_xml ''42'' = ''42''"
  by (simp add: escape_xml_def replace_def)

lemma units_element_stays:
  "\<not> text_has ''<!-- Optional:'' ux \<Longrightarrow> stays (LElement ''xdcount-units'' ua ux ucs)"
  by (simp add: OPTIONAL_CONTAINER_ELEMENTS_def OPTIONAL_ELEMENTS_def REQUIRED_ELEMENTS_def
      localname_def)

lemma all_below_through:
  fixes f :: "lxml \<Rightarrow> lxml"
  assumes ch: "\<And>t a x cs d. d \<in> set (lchildren (f (LElement t a x cs))) \<Longrightarrow> \<exists>c \<in> set cs. d = f c"
    and el: "\<And>t a x cs. \<exists>t' a' x' cs'. f (LElement t a x cs) = LElement t' a' x' cs'"
    and co: "\<And>c. f (LComment c) = LComment c"
    and qr: "\<And>e. Q e \<Longrightarrow> R (f e)"
  shows "all_below Q e \<Longrightarrow> all_below R (f e)"
proof (induction e)
  case (LElement t a x cs)
  obtain t' a' x' cs' where eq: "f (LElement t a x cs) = LElement t' a' x' cs'"
    using el by blast
  have "\<forall>d \<in> set cs'. R d \<and> all_below R d"
  proof
    fix d assume "d \<in> set cs'"
    then have "d \<in> set (lchildren (f (LElement t a x cs)))" by (simp add: eq)
    then obtain c where c: "c \<in> set cs" "d = f c" using ch by blast
    have q: "Q c" "all_below Q c" using LElement.prems c(1) by auto
    show "R d \<and> all_below R d" using LElement.IH[OF c(1) q(2)] qr[OF q(1)] c(2) by simp
  qed
  then show ?case by (simp add: eq)
next
  case (LComment c)
  then show ?case by (simp add: co)
qed

lemma if_flip: "(if x \<noteq> y then a else b) = (if x = y then b else a)"
  by simp

lemma pev_children_nil:
  assumes "d \<in> set (lchildren (process_ev_placeholders [] (LElement t a x cs)))"
  shows "\<exists>c \<in> set cs. d = process_ev_placeholders [] c"
proof -
  let ?f = "\<lambda>child.
          case child of
            LComment c \<Rightarrow> [child]
          | LElement t' a' x' cs' \<Rightarrow>
              if t' = ''ev-placeholder''
              then (case map_of a' ''ct_id'' of
                      Some ct_id \<Rightarrow>
                        (if ct_id \<noteq> [] then
                           (case map_of ([] :: (string \<times> string) list) ct_id of
                              Some ev_code \<Rightarrow> [ev_element ev_code]
                            | None \<Rightarrow> [])
                         else [])
                    | None \<Rightarrow> [])
              else [process_ev_placeholders [] child]"
  have m: "d \<in> set (concat (map ?f cs))"
    using assms by (simp only: process_ev_placeholders.simps lxml.sel)
  have s: "\<And>c. set (?f c) \<subseteq> {process_ev_placeholders [] c}"
    subgoal for c
      apply (simp only: if_flip)
      apply (cases c)
       apply (auto split: option.splits)
      done
    done
  show ?thesis by (rule concat_map_image[OF m s])
qed

lemma optional_pev: "optional_leaf (process_ev_placeholders m e) = optional_leaf e"
  by (cases e) auto

lemma optional_rec: "optional_leaf (remove_empty_containers name e) = optional_leaf e"
  by (cases e) auto

lemma optional_rc: "optional_leaf (remove_comments e) = optional_leaf e"
  by (cases e) auto

lemma pev_unpopulated:
  "all_below (\<lambda>d. optional_leaf d \<longrightarrow> unpopulated_optional d) e \<Longrightarrow>
   all_below (\<lambda>d. optional_leaf d \<longrightarrow> unpopulated_optional d) (process_ev_placeholders [] e)"
  by (rule all_below_through[where f = "process_ev_placeholders []"])
     (simp_all add: pev_children_nil optional_pev unpopulated_pev)

lemma rec_none:
  "all_below (\<lambda>d. \<not> optional_leaf d) e \<Longrightarrow>
   all_below (\<lambda>d. \<not> optional_leaf d) (remove_empty_containers name e)"
  by (rule all_below_through[where f = "remove_empty_containers name"])
     (simp_all add: rec_children optional_rec)

lemma pec_none:
  "all_below (\<lambda>d. \<not> optional_leaf d) e \<Longrightarrow>
   all_below (\<lambda>d. \<not> optional_leaf d) (prune_empty_containers order e)"
  unfolding prune_empty_containers_def
  by (induction order arbitrary: e) (simp_all add: rec_none)

lemma rc_none:
  "all_below (\<lambda>d. \<not> optional_leaf d) e \<Longrightarrow>
   all_below (\<lambda>d. \<not> optional_leaf d) (remove_comments e)"
  by (rule all_below_through[where f = "remove_comments"])
     (simp_all add: rc_children optional_rc)

lemma optional_fpe:
  "optional_leaf (snd (find_placeholder_elements env e)) = optional_leaf e"
  by (cases e) (auto simp: Let_def)

lemma fpe_none:
  "\<not> unpopulated_optional e \<Longrightarrow>
   all_below (\<lambda>d. optional_leaf d \<longrightarrow> unpopulated_optional d) e \<Longrightarrow>
   all_below (\<lambda>d. \<not> optional_leaf d) (snd (find_placeholder_elements env e))"
proof (induction env e rule: find_placeholder_elements.induct)
  case (1 env c)
  then show ?case by simp
next
  case (2 env t a x cs)
  have ne: "\<not> (text_has PLACEHOLDER_PREFIX x \<and> localname t \<notin> set REQUIRED_ELEMENTS
        \<and> localname t \<in> set OPTIONAL_ELEMENTS)"
    using "2.prems"(1) by (auto simp: OPTIONAL_ELEMENTS_def REQUIRED_ELEMENTS_def)
  have ch: "lchildren (snd (find_placeholder_elements env (LElement t a x cs)))
     = map (\<lambda>c. snd (find_placeholder_elements env c))
         (filter (\<lambda>c. \<not> fst (find_placeholder_elements env c)) cs)"
    by (rule fpe_children[OF ne])
  obtain x' cs' where r: "snd (find_placeholder_elements env (LElement t a x cs)) = LElement t a x' cs'"
    using ne by (auto simp: Let_def)
  have "\<forall>d \<in> set cs'. \<not> optional_leaf d \<and> all_below (\<lambda>d. \<not> optional_leaf d) d"
  proof
    fix d assume "d \<in> set cs'"
    then obtain c where c: "c \<in> set cs" "\<not> fst (find_placeholder_elements env c)"
      "d = snd (find_placeholder_elements env c)"
      using ch r by auto
    have nu: "\<not> unpopulated_optional c"
      using c(2) by (cases c) (auto simp: Let_def OPTIONAL_ELEMENTS_def REQUIRED_ELEMENTS_def)
    have h: "optional_leaf c \<longrightarrow> unpopulated_optional c"
      "all_below (\<lambda>d. optional_leaf d \<longrightarrow> unpopulated_optional d) c"
      using "2.prems"(2) c(1) by auto
    have q: "\<not> optional_leaf d" using h(1) nu c(3) optional_fpe by simp
    have "all_below (\<lambda>d. \<not> optional_leaf d) (snd (find_placeholder_elements env c))"
      using "2.IH"[OF ne refl c(1) nu h(2)] .
    then show "\<not> optional_leaf d \<and> all_below (\<lambda>d. \<not> optional_leaf d) d"
      using q c(3) by simp
  qed
  then show ?case using r by simp
qed

lemma pt_none:
  "\<not> unpopulated_optional root \<Longrightarrow>
   all_below (\<lambda>d. optional_leaf d \<longrightarrow> unpopulated_optional d) root \<Longrightarrow>
   all_below (\<lambda>d. \<not> optional_leaf d) (process_tree env [] root)"
  unfolding process_tree_def
  by (intro rc_none pec_none fpe_none pev_unpopulated) (simp_all add: unpopulated_pev)

lemma build_ev_map_nil: "build_ev_map field_metadata [] = []"
proof -
  have "foldl (\<lambda>ev_map (field_name, meta).
              case (case map_of ([] :: (string \<times> field_override) list) field_name of
                      Some ov \<Rightarrow> o_ev ov | None \<Rightarrow> None) of
                Some ev_code \<Rightarrow>
                  if ev_code \<noteq> [] \<and> ev_code \<in> fst ` set EV_CODES
                  then dict_set ev_map (case m_ct_id meta of Some c \<Rightarrow> c | None \<Rightarrow> []) ev_code
                  else ev_map
              | None \<Rightarrow> ev_map) acc xs = acc" for acc xs
    by (induction xs arbitrary: acc) auto
  then show ?thesis by (simp add: build_ev_map_def)
qed

lemma replace_absent_field:
  "k \<notin> fst ` set xs \<Longrightarrow>
   foldl (replace_one_field fm [(k, v)] md) xml xs = xml"
  by (induction xs arbitrary: xml) (auto simp: replace_one_field_def Let_def)

lemma replace_only_field:
  "distinct (map fst xs) \<Longrightarrow> (k, meta) \<in> set xs \<Longrightarrow>
   foldl (replace_one_field fm [(k, v)] md) xml xs = replace_one_field fm [(k, v)] md xml (k, meta)"
proof (induction xs arbitrary: xml)
  case Nil
  then show ?case by simp
next
  case (Cons e xs)
  show ?case
  proof (cases "fst e = k")
    case True
    then have e: "e = (k, meta)" using Cons.prems by (cases e) (auto simp: rev_image_eqI)
    have "k \<notin> fst ` set xs" using Cons.prems(1) True by auto
    then show ?thesis using e by (simp add: replace_absent_field)
  next
    case False
    then have "replace_one_field fm [(k, v)] md xml e = xml"
      by (simp add: replace_one_field_def Let_def)
    moreover have "(k, meta) \<in> set xs" using Cons.prems False by auto
    ultimately show ?thesis using Cons.IH Cons.prems(1) by simp
  qed
qed

lemma replace_count_42:
  "m_type meta = Some ''XdCount'' \<Longrightarrow>
   replace_one_field fm [(k, PInt 42)] [] xml (k, meta)
     = replace (PLACEHOLDER_PREFIX @ ''xdcount-value_'' @ k) ''42'' xml"
  by (simp add: replace_one_field_def Let_def get_value_element_name_def type_map_def
        string_of_int_42 escape_xml_42 replace_optional_metadata_def replace_if_def
        no_override_def replace_units_placeholder_def)

lemma count_string_phase:
  "distinct (map fst fm) \<Longrightarrow> (k, meta) \<in> set fm \<Longrightarrow> m_type meta = Some ''XdCount'' \<Longrightarrow>
   replace_field_placeholders fm xml [(k, PInt 42)] []
     = replace (PLACEHOLDER_PREFIX @ ''xdcount-value_'' @ k) ''42'' xml"
  unfolding replace_field_placeholders_def
  by (simp add: replace_only_field replace_count_42)

lemma sample_count_substituted:
  "replace (PLACEHOLDER_PREFIX @ ''xdcount-value_abc123'') ''42''
     (replace_metadata_placeholders (now sample_env)
        (sample_count_xml ''__PLACEHOLDER__xdcount-value_abc123'') ''i-1'')
   = sample_count_xml ''42''"
  by (simp add: replace_metadata_placeholders_def replace_def PLACEHOLDER_PREFIX_def
      sample_count_xml_def dq_def sample_env_def)

lemma sample_count_tree:
  "process_tree sample_env []
       (sample_count_doc ''__PLACEHOLDER__label_u1'' ''__PLACEHOLDER__xdstring-value_u1'')
     = LElement ''dm-d1'' [] None
         [LElement ''ms-abc123'' [] None
            [LElement ''label'' [] (Some ''Population'') [],
             LElement ''xdcount-value'' [] (Some ''42'') [],
             LElement ''xdcount-units'' [] None
               [LElement ''label'' [] (Some ''__PLACEHOLDER__label_u1'') [],
                LElement ''xdstring-value'' [] (Some ''__PLACEHOLDER__xdstring-value_u1'') []]]]"
  by (simp add: process_tree_def sample_count_doc_def
        sample_env_def text_has_def Let_def localname_def
        PLACEHOLDER_PREFIX_def REQUIRED_ELEMENTS_def OPTIONAL_ELEMENTS_def
        OPTIONAL_CONTAINER_ELEMENTS_def prune_empty_containers_def)









section \<open>The Corrector's claims\<close>

lemma choose_ev_groups:
  "choose_ev_for_error m =
     (if mentions_any [''required'', ''missing'', ''mandatory''] m then ''NotPerformed''
      else if mentions_any [''type'', ''format'', ''pattern''] m then ''NoInformation''
      else if mentions_any [''range'', ''constraint'', ''bounds'', ''limit''] m then ''Unknown''
      else if mentions_any [''refused'', ''declined''] m then ''Refused''
      else if mentions_any [''not applicable'', ''n/a''] m then ''NotApplicable''
      else ''NoInformation'')"
  unfolding mentions_any_code choose_ev_for_error_def Let_def by simp

lemma choose_required_field_missing:
  "choose_ev_for_error ''required field missing'' = ''NotPerformed''"
  by (simp add: choose_ev_for_error_def lower_def lower_char_def)

text \<open>
  Claim C5. The Corrector selects the EV by an ordered heuristic over the message text,
  letter case ignored, in which the first matching group wins: required, missing or
  mandatory give NotPerformed; otherwise type, format or pattern give NoInformation;
  otherwise range, constraint, bounds or limit give Unknown; otherwise refused or declined
  give Refused; otherwise not applicable or n/a give NotApplicable; every other message
  gives NoInformation. The message "required field missing" gives NotPerformed, and the
  component located for it ends with the child
  \<^verbatim>\<open><exceptional-value>NotPerformed</exceptional-value>\<close>.
\<close>

theorem choose_ev_first_match_wins:
  "(mentions_any [''required'', ''missing'', ''mandatory''] m
      \<longrightarrow> choose_ev_for_error m = ''NotPerformed'') \<and>
   (\<not> mentions_any [''required'', ''missing'', ''mandatory''] m \<and>
    mentions_any [''type'', ''format'', ''pattern''] m
      \<longrightarrow> choose_ev_for_error m = ''NoInformation'') \<and>
   (\<not> mentions_any [''required'', ''missing'', ''mandatory''] m \<and>
    \<not> mentions_any [''type'', ''format'', ''pattern''] m \<and>
    mentions_any [''range'', ''constraint'', ''bounds'', ''limit''] m
      \<longrightarrow> choose_ev_for_error m = ''Unknown'') \<and>
   (\<not> mentions_any [''required'', ''missing'', ''mandatory''] m \<and>
    \<not> mentions_any [''type'', ''format'', ''pattern''] m \<and>
    \<not> mentions_any [''range'', ''constraint'', ''bounds'', ''limit''] m \<and>
    mentions_any [''refused'', ''declined''] m
      \<longrightarrow> choose_ev_for_error m = ''Refused'') \<and>
   (\<not> mentions_any [''required'', ''missing'', ''mandatory''] m \<and>
    \<not> mentions_any [''type'', ''format'', ''pattern''] m \<and>
    \<not> mentions_any [''range'', ''constraint'', ''bounds'', ''limit''] m \<and>
    \<not> mentions_any [''refused'', ''declined''] m \<and>
    mentions_any [''not applicable'', ''n/a''] m
      \<longrightarrow> choose_ev_for_error m = ''NotApplicable'') \<and>
   (\<not> mentions_any [''required'', ''missing'', ''mandatory''] m \<and>
    \<not> mentions_any [''type'', ''format'', ''pattern''] m \<and>
    \<not> mentions_any [''range'', ''constraint'', ''bounds'', ''limit''] m \<and>
    \<not> mentions_any [''refused'', ''declined''] m \<and>
    \<not> mentions_any [''not applicable'', ''n/a''] m
      \<longrightarrow> choose_ev_for_error m = ''NoInformation'') \<and>
   choose_ev_for_error ''required field missing'' = ''NotPerformed'' \<and>
   (find_element_by_ct_id tree ct_id = Some p \<and>
    correct_all [(ct_id, ''required field missing'')] tree [] = Inr (tree', labels)
      \<longrightarrow> children (get_at tree' p) \<noteq> [] \<and>
          last (children (get_at tree' p)) =
            Element ''exceptional-value'' [] (Some ''NotPerformed'') [])"
proof -
  have comp: "children (get_at tree' p) \<noteq> [] \<and>
          last (children (get_at tree' p)) =
            Element ''exceptional-value'' [] (Some ''NotPerformed'') []"
    if f: "find_element_by_ct_id tree ct_id = Some p"
      and c: "correct_all [(ct_id, ''required field missing'')] tree [] = Inr (tree', labels)"
  proof -
    from c f obtain elem lbl where
      e: "correct_component ct_id ''required field missing'' (get_at tree p) = Inr (elem, lbl)"
      and t: "tree' = update_at (\<lambda>_. elem) p tree"
      by (auto split: sum.splits)
    have "valid_path tree p"
      using f first_path_valid_path(1) by (simp add: find_element_by_ct_id_def)
    then have "get_at tree' p = elem" using t by (simp add: get_at_update_at)
    then show ?thesis
      using children_correct_component[OF e] choose_required_field_missing by simp
  qed
  have a1: "mentions_any [''required'', ''missing'', ''mandatory''] m
      \<longrightarrow> choose_ev_for_error m = ''NotPerformed''"
    by (simp add: choose_ev_groups)
  have a2: "\<not> mentions_any [''required'', ''missing'', ''mandatory''] m \<and>
    mentions_any [''type'', ''format'', ''pattern''] m
      \<longrightarrow> choose_ev_for_error m = ''NoInformation''"
    by (simp add: choose_ev_groups)
  have a3: "\<not> mentions_any [''required'', ''missing'', ''mandatory''] m \<and>
    \<not> mentions_any [''type'', ''format'', ''pattern''] m \<and>
    mentions_any [''range'', ''constraint'', ''bounds'', ''limit''] m
      \<longrightarrow> choose_ev_for_error m = ''Unknown''"
    by (simp add: choose_ev_groups)
  have a4: "\<not> mentions_any [''required'', ''missing'', ''mandatory''] m \<and>
    \<not> mentions_any [''type'', ''format'', ''pattern''] m \<and>
    \<not> mentions_any [''range'', ''constraint'', ''bounds'', ''limit''] m \<and>
    mentions_any [''refused'', ''declined''] m
      \<longrightarrow> choose_ev_for_error m = ''Refused''"
    by (simp add: choose_ev_groups)
  have a5: "\<not> mentions_any [''required'', ''missing'', ''mandatory''] m \<and>
    \<not> mentions_any [''type'', ''format'', ''pattern''] m \<and>
    \<not> mentions_any [''range'', ''constraint'', ''bounds'', ''limit''] m \<and>
    \<not> mentions_any [''refused'', ''declined''] m \<and>
    mentions_any [''not applicable'', ''n/a''] m
      \<longrightarrow> choose_ev_for_error m = ''NotApplicable''"
    by (simp add: choose_ev_groups)
  have a6: "\<not> mentions_any [''required'', ''missing'', ''mandatory''] m \<and>
    \<not> mentions_any [''type'', ''format'', ''pattern''] m \<and>
    \<not> mentions_any [''range'', ''constraint'', ''bounds'', ''limit''] m \<and>
    \<not> mentions_any [''refused'', ''declined''] m \<and>
    \<not> mentions_any [''not applicable'', ''n/a''] m
      \<longrightarrow> choose_ev_for_error m = ''NoInformation''"
    by (simp add: choose_ev_groups)
  have a8: "find_element_by_ct_id tree ct_id = Some p \<and>
    correct_all [(ct_id, ''required field missing'')] tree [] = Inr (tree', labels)
      \<longrightarrow> children (get_at tree' p) \<noteq> [] \<and>
          last (children (get_at tree' p)) =
            Element ''exceptional-value'' [] (Some ''NotPerformed'') []"
    using comp by blast
  show ?thesis
    by (intro conjI; (rule a1 a2 a3 a4 a5 a6 a8 choose_required_field_missing))
qed

theorem choose_ev_first_match_wins_witness:
  "choose_ev_for_error ''REQUIRED attribute'' = ''NotPerformed'' \<and>
   choose_ev_for_error ''invalid Format'' = ''NoInformation'' \<and>
   choose_ev_for_error ''value out of range'' = ''Unknown'' \<and>
   choose_ev_for_error ''subject declined'' = ''Refused'' \<and>
   choose_ev_for_error ''N/A here'' = ''NotApplicable'' \<and>
   choose_ev_for_error ''something else'' = ''NoInformation'' \<and>
   last (children (get_at (Element ''dm'' [] None
           [Element ''ms-abc123'' [(''ct-id'', ''abc123'')] None
              [Element ''label'' [] (Some ''Population'') [],
               Element ''exceptional-value'' [] (Some ''NotPerformed'') []]]) [0])) =
     Element ''exceptional-value'' [] (Some ''NotPerformed'') []"
proof -
  note T = choose_ev_first_match_wins
  have ev: "\<And>ws m. mentions_any ws m = (\<exists>w \<in> set ws. in_str w (map lower_char m))"
    by (simp add: mentions_any_code lower_def)
  have w1: "choose_ev_for_error ''REQUIRED attribute'' = ''NotPerformed''"
    using T[of "''REQUIRED attribute''", THEN conjunct1] by (simp add: ev lower_char_def)
  have w2: "choose_ev_for_error ''invalid Format'' = ''NoInformation''"
    using T[of "''invalid Format''", THEN conjunct2, THEN conjunct1]
    by (simp add: ev lower_char_def)
  have w3: "choose_ev_for_error ''value out of range'' = ''Unknown''"
    using T[of "''value out of range''", THEN conjunct2, THEN conjunct2, THEN conjunct1]
    by (simp add: ev lower_char_def)
  have w4: "choose_ev_for_error ''subject declined'' = ''Refused''"
    using T[of "''subject declined''", THEN conjunct2, THEN conjunct2, THEN conjunct2,
        THEN conjunct1]
    by (simp add: ev lower_char_def)
  have w5: "choose_ev_for_error ''N/A here'' = ''NotApplicable''"
    using T[of "''N/A here''", THEN conjunct2, THEN conjunct2, THEN conjunct2, THEN conjunct2,
        THEN conjunct1]
    by (simp add: ev lower_char_def)
  have w6: "choose_ev_for_error ''something else'' = ''NoInformation''"
    using T[of "''something else''", THEN conjunct2, THEN conjunct2, THEN conjunct2,
        THEN conjunct2, THEN conjunct2, THEN conjunct1]
    by (simp add: ev lower_char_def)
  have f: "find_element_by_ct_id (Element ''dm'' [] None
           [Element ''ms-abc123'' [(''ct-id'', ''abc123'')] None
              [Element ''label'' [] (Some ''Population'') []]]) ''abc123'' = Some [0]"
    by (simp add: find_element_by_ct_id_def get_attr_def)
  have c: "correct_all [(''abc123'', ''required field missing'')] (Element ''dm'' [] None
           [Element ''ms-abc123'' [(''ct-id'', ''abc123'')] None
              [Element ''label'' [] (Some ''Population'') []]]) [] =
         Inr (Element ''dm'' [] None
           [Element ''ms-abc123'' [(''ct-id'', ''abc123'')] None
              [Element ''label'' [] (Some ''Population'') [],
               Element ''exceptional-value'' [] (Some ''NotPerformed'') []]], [Some ''Population''])"
    by (simp add: find_element_by_ct_id_def get_attr_def correct_component_def find_def
        find_path_def choose_ev_for_error_def lower_def lower_char_def)
  have w7: "last (children (get_at (Element ''dm'' [] None
           [Element ''ms-abc123'' [(''ct-id'', ''abc123'')] None
              [Element ''label'' [] (Some ''Population'') [],
               Element ''exceptional-value'' [] (Some ''NotPerformed'') []]]) [0])) =
     Element ''exceptional-value'' [] (Some ''NotPerformed'') []"
    using T[THEN conjunct2, THEN conjunct2, THEN conjunct2, THEN conjunct2, THEN conjunct2,
        THEN conjunct2, THEN conjunct2, rule_format, OF conjI, OF f c]
    by (rule conjunct2)
  show ?thesis
    by (intro conjI; (rule w1 w2 w3 w4 w5 w6 w7))
qed

text \<open>
  Claim C9. When the input does not parse, \<open>auto_correct_with_evs\<close> returns the input
  string unchanged with an empty list of corrected labels; it returns a value and raises
  nothing.
\<close>

theorem auto_correct_unparseable_unchanged:
  "fromstring xml_content = None \<Longrightarrow>
     auto_correct_with_evs fromstring tostring xml_content errors = Inr (xml_content, [])"
  by (simp add: auto_correct_with_evs_def)

theorem auto_correct_unparseable_unchanged_witness:
  "sample_fromstring ''<a><b></a>'' = None \<and>
   auto_correct_with_evs sample_fromstring (\<lambda>t. tag t) ''<a><b></a>''
       [(''abc123'', ''required field missing'')] = Inr (''<a><b></a>'', [])"
proof -
  have h: "sample_fromstring ''<a><b></a>'' = None"
    by (simp add: sample_fromstring_def)
  show ?thesis
    using h auto_correct_unparseable_unchanged[of sample_fromstring "''<a><b></a>''" "\<lambda>t. tag t"
        "[(''abc123'', ''required field missing'')]"]
    by simp
qed

text \<open>
  Claim C1 says that every corrected component loses its value element and has exactly one
  exceptional-value child. The code looks for a descendant with the tag \<open>value\<close> only, and
  removes it only as a direct child. On a component whose value element is
  \<open>xdcount-value\<close> the value element stays beside the new exceptional-value child; on a
  component that already has an exceptional-value child there are two afterwards; and a
  \<open>value\<close> element below a wrapper makes \<open>elem.remove\<close> raise \<open>ValueError\<close>.
\<close>

theorem auto_correct_keeps_value_element:
  "correct_all [(''abc123'', ''required field missing'')]
     (Element ''dm'' [] None
        [Element ''ms-abc123'' [(''ct-id'', ''abc123'')] None
           [Element ''label'' [] (Some ''Population'') [],
            Element ''xdcount-value'' [] (Some ''-5'') []]]) []
   = Inr (Element ''dm'' [] None
        [Element ''ms-abc123'' [(''ct-id'', ''abc123'')] None
           [Element ''label'' [] (Some ''Population'') [],
            Element ''xdcount-value'' [] (Some ''-5'') [],
            Element ''exceptional-value'' [] (Some ''NotPerformed'') []]],
          [Some ''Population'']) \<and>
   correct_all [(''abc123'', ''required field missing'')]
     (Element ''dm'' [] None
        [Element ''ms-abc123'' [(''ct-id'', ''abc123'')] None
           [Element ''label'' [] (Some ''Population'') [],
            Element ''exceptional-value'' [] (Some ''Unknown'') []]]) []
   = Inr (Element ''dm'' [] None
        [Element ''ms-abc123'' [(''ct-id'', ''abc123'')] None
           [Element ''label'' [] (Some ''Population'') [],
            Element ''exceptional-value'' [] (Some ''Unknown'') [],
            Element ''exceptional-value'' [] (Some ''NotPerformed'') []]],
          [Some ''Population'']) \<and>
   correct_all [(''abc123'', ''required field missing'')]
     (Element ''dm'' [] None
        [Element ''ms-abc123'' [(''ct-id'', ''abc123'')] None
           [Element ''label'' [] (Some ''Population'') [],
            Element ''data'' [] None [Element ''value'' [] (Some ''-5'') []]]]) []
   = Inl ValueError"
  by (simp add: find_element_by_ct_id_def get_attr_def correct_component_def find_def
      find_path_def choose_ev_for_error_def lower_def lower_char_def)
section \<open>The JSON Extractor's claims\<close>

text \<open>
  Claim C8, amended. When the first exceptional-value descendant of a component (in
  document order) carries non-empty text, the record of \<open>_extract_field\<close> holds the
  exceptional_value entry and at most the label: value, units, valid_time_begin,
  valid_time_end and location are absent, whatever value element the XML holds.
\<close>

theorem extract_field_ev_only:
  "find ''exceptional-value'' elem = Some ev_elem \<Longrightarrow> etext ev_elem = Some ev \<Longrightarrow> ev \<noteq> [] \<Longrightarrow>
     \<exists>field_data. extract_field elem = Inr (Some field_data) \<and>
       map_of field_data ''exceptional_value'' = Some (JStr ev) \<and>
       fst ` set field_data \<subseteq> {''label'', ''exceptional_value''} \<and>
       map_of field_data ''value'' = None \<and>
       map_of field_data ''units'' = None \<and>
       map_of field_data ''valid_time_begin'' = None \<and>
       map_of field_data ''valid_time_end'' = None \<and>
       map_of field_data ''location'' = None"
  by (auto simp: extract_field_def find_text_def split: option.splits)

theorem extract_field_ev_only_witness:
  "find ''exceptional-value''
      (Element ''ms-abc123'' [] None
         [Element ''label'' [] (Some ''Population'') [],
          Element ''xdcount-value'' [] (Some ''42'') [],
          Element ''exceptional-value'' [] (Some ''NotPerformed'') []])
     = Some (Element ''exceptional-value'' [] (Some ''NotPerformed'') []) \<and>
   extract_field
      (Element ''ms-abc123'' [] None
         [Element ''label'' [] (Some ''Population'') [],
          Element ''xdcount-value'' [] (Some ''42'') [],
          Element ''exceptional-value'' [] (Some ''NotPerformed'') []])
     = Inr (Some [(''label'', JStr ''Population''), (''exceptional_value'', JStr ''NotPerformed'')])"
proof -
  let ?e = "Element ''ms-abc123'' [] None
         [Element ''label'' [] (Some ''Population'') [],
          Element ''xdcount-value'' [] (Some ''42'') [],
          Element ''exceptional-value'' [] (Some ''NotPerformed'') []]"
  have f: "find ''exceptional-value'' ?e = Some (Element ''exceptional-value'' [] (Some ''NotPerformed'') [])"
    by (simp add: find_def find_path_def)
  have l: "find_text ''label'' ?e = Some ''Population''"
    by (simp add: find_text_def find_def find_path_def)
  from extract_field_ev_only[OF f, of "''NotPerformed''"]
  obtain fd where fd: "extract_field ?e = Inr (Some fd)" by auto
  have "extract_field ?e = Inr (Some [(''label'', JStr ''Population''), (''exceptional_value'', JStr ''NotPerformed'')])"
    using f l by (simp add: extract_field_def find_text_def)
  then show ?thesis using f fd by simp
qed

text \<open>
  The claim as stated fails: the early return is guarded by \<open>ev_elem.text\<close>, so an
  exceptional-value child without text does not stop the value and the units from being
  reported.
\<close>

theorem extract_field_empty_ev_reports_value:
  "Element ''exceptional-value'' [] None [] \<in> set (children
      (Element ''ms-abc123'' [] None
         [Element ''label'' [] (Some ''Population'') [],
          Element ''exceptional-value'' [] None [],
          Element ''xdcount-value'' [] (Some ''42'') [],
          Element ''units'' [] (Some ''people'') []])) \<and>
   extract_field
      (Element ''ms-abc123'' [] None
         [Element ''label'' [] (Some ''Population'') [],
          Element ''exceptional-value'' [] None [],
          Element ''xdcount-value'' [] (Some ''42'') [],
          Element ''units'' [] (Some ''people'') []])
     = Inr (Some [(''label'', JStr ''Population''), (''value'', JInt 42), (''units'', JStr ''people'')])"
  by (simp add: extract_field_def find_text_def find_def find_path_def VALUE_ELEMENT_NAMES_def
      parse_value_def lower_def lower_char_def py_int_def strip_def is_space_def digit_val_def)

section \<open>The RDF Extractor's literal\<close>

lemma lower_char_dq: "lower_char c = CHR 0x22 \<longleftrightarrow> c = CHR 0x22"
  by (auto simp: lower_char_def split: option.splits if_splits)

lemma wrapped_lower: "wrapped_in_quotes (lower v) \<longleftrightarrow> wrapped_in_quotes v"
proof (cases "v = []")
  case True
  then show ?thesis by (simp add: lower_def)
next
  case False
  then show ?thesis
    by (simp add: wrapped_in_quotes_def lower_def hd_map last_map lower_char_dq)
qed

lemma length_lower: "length (lower v) = length v"
  by (simp add: lower_def)

text \<open>
  Claim C4, amended. For a field of boolean, count, ordinal, quantity, float or double
  kind the literal of the quoted triple is the text of the value element itself (in lower
  case for a boolean): the extractor adds no quotes, so the literal is wrapped in quotes
  exactly when the text already was. For every other kind the literal is the escaped text
  between double quotes, backslash, double quote, line feed, carriage return and tab being
  escaped, and reading it back as a Turtle string literal gives the value unchanged. The
  literal is the one placed in the \<open>rdf:reifies\<close> line of the component.
\<close>

theorem literal_quoting_law:
  "(field_type \<in> set NATIVE_KINDS \<longrightarrow>
      value_literal field_type v = (if field_type = ''XdBoolean'' then lower v else v) \<and>
      length (value_literal field_type v) = length v \<and>
      (wrapped_in_quotes (value_literal field_type v) \<longleftrightarrow> wrapped_in_quotes v)) \<and>
   (field_type \<notin> set NATIVE_KINDS \<longrightarrow>
      value_literal field_type v = dq @ escape_turtle (Some v) @ dq \<and>
      wrapped_in_quotes (value_literal field_type v) \<and>
      escape_turtle (Some v) = concat (map turtle_escape_char v) \<and>
      turtle_read_literal (value_literal field_type v) = Some v) \<and>
   (map_of field_metadata ct_id = Some meta \<and> \<not> meta_is_empty meta \<and>
    find_value elem (case m_type meta of Some ty \<Rightarrow> ty | None \<Rightarrow> ''XdString'') = Some (n, v)
      \<longrightarrow> extract_component_triple_term dm_ct_id field_metadata elem ct_id instance_id
            instance_cuid cluster_ct_id ! 1
          = '':v_'' @ ct_id @ ''_'' @ instance_cuid @ '' rdf:reifies << sdc4:mc-'' @ ct_id
              @ '' sdc4:'' @ n @ '' ''
              @ value_literal (case m_type meta of Some ty \<Rightarrow> ty | None \<Rightarrow> ''XdString'') v
              @ '' >> ;'')"
proof -
  have a: "field_type \<in> set NATIVE_KINDS \<longrightarrow>
      value_literal field_type v = (if field_type = ''XdBoolean'' then lower v else v) \<and>
      length (value_literal field_type v) = length v \<and>
      (wrapped_in_quotes (value_literal field_type v) \<longleftrightarrow> wrapped_in_quotes v)"
    by (auto simp: value_literal_def NATIVE_KINDS_def wrapped_lower length_lower)
  have b1: "field_type \<notin> set NATIVE_KINDS \<Longrightarrow>
      value_literal field_type v = dq @ escape_turtle (Some v) @ dq"
    by (simp add: value_literal_def NATIVE_KINDS_def)
  have b2: "wrapped_in_quotes (dq @ e @ dq)" for e
    by (simp add: wrapped_in_quotes_def dq_def)
  have b3: "turtle_read_literal (dq @ escape_turtle (Some v) @ dq) = Some v"
    by (simp add: turtle_read_quoted escape_turtle_chars turtle_unescape_escape)
  have b: "field_type \<notin> set NATIVE_KINDS \<longrightarrow>
      value_literal field_type v = dq @ escape_turtle (Some v) @ dq \<and>
      wrapped_in_quotes (value_literal field_type v) \<and>
      escape_turtle (Some v) = concat (map turtle_escape_char v) \<and>
      turtle_read_literal (value_literal field_type v) = Some v"
    using b1 b2 b3 escape_turtle_chars by simp
  have c: "map_of field_metadata ct_id = Some meta \<and> \<not> meta_is_empty meta \<and>
    find_value elem (case m_type meta of Some ty \<Rightarrow> ty | None \<Rightarrow> ''XdString'') = Some (n, v)
      \<longrightarrow> extract_component_triple_term dm_ct_id field_metadata elem ct_id instance_id
            instance_cuid cluster_ct_id ! 1
          = '':v_'' @ ct_id @ ''_'' @ instance_cuid @ '' rdf:reifies << sdc4:mc-'' @ ct_id
              @ '' sdc4:'' @ n @ '' ''
              @ value_literal (case m_type meta of Some ty \<Rightarrow> ty | None \<Rightarrow> ''XdString'') v
              @ '' >> ;''"
    by (simp add: extract_component_triple_term_def Let_def close_description_nth1 del: close_description_def)
  show ?thesis
    by (intro conjI; (rule a b c))
qed


theorem literal_quoting_law_witness:
  "value_literal ''XdBoolean'' ''TRUE'' = ''true'' \<and>
   value_literal ''XdCount'' ''42'' = ''42'' \<and>
   turtle_read_literal (value_literal ''XdString'' [CHR ''a'', CHR 0x22, CHR 0x5C, CHR 0x0A, CHR ''b''])
     = Some [CHR ''a'', CHR 0x22, CHR 0x5C, CHR 0x0A, CHR ''b''] \<and>
   extract_component_triple_term ''dm1''
       [(''abc123'', \<lparr>m_label = Some ''Area'', m_type = Some ''XdQuantity'', m_ct_id = None,
                       m_adapter_ctid = None, m_units = None, m_temporal_types = None,
                       m_other_keys = []\<rparr>)]
       (Element ''ms-abc123'' [] None
          [Element ''label'' [] (Some ''Area'') [],
           Element ''xdquantity-value'' [] (Some ''12.5'') []])
       ''abc123'' ''i-x1'' ''x1'' None ! 1
     = '':v_abc123_x1 rdf:reifies << sdc4:mc-abc123 sdc4:xdquantity-value 12.5 >> ;''"
proof -
  note T = literal_quoting_law
  let ?meta = "\<lparr>m_label = Some ''Area'', m_type = Some ''XdQuantity'', m_ct_id = None,
                       m_adapter_ctid = None, m_units = None, m_temporal_types = None,
                       m_other_keys = []\<rparr>"
  let ?elem = "Element ''ms-abc123'' [] None
          [Element ''label'' [] (Some ''Area'') [],
           Element ''xdquantity-value'' [] (Some ''12.5'') []]"
  have k1: "''XdBoolean'' \<in> set NATIVE_KINDS" by (simp add: NATIVE_KINDS_def)
  have k2: "''XdCount'' \<in> set NATIVE_KINDS" by (simp add: NATIVE_KINDS_def)
  have k3: "''XdString'' \<notin> set NATIVE_KINDS" by (simp add: NATIVE_KINDS_def)
  have w1: "value_literal ''XdBoolean'' ''TRUE'' = ''true''"
    using T[of "''XdBoolean''" "''TRUE''", THEN conjunct1, rule_format, OF k1]
    by (simp add: lower_def lower_char_def)
  have w2: "value_literal ''XdCount'' ''42'' = ''42''"
    using T[of "''XdCount''" "''42''", THEN conjunct1, rule_format, OF k2] by simp
  have w3: "turtle_read_literal (value_literal ''XdString'' [CHR ''a'', CHR 0x22, CHR 0x5C, CHR 0x0A, CHR ''b''])
     = Some [CHR ''a'', CHR 0x22, CHR 0x5C, CHR 0x0A, CHR ''b'']"
    by (rule T[of "''XdString''" "[CHR ''a'', CHR 0x22, CHR 0x5C, CHR 0x0A, CHR ''b'']",
        THEN conjunct2, THEN conjunct1, rule_format, OF k3, THEN conjunct2, THEN conjunct2,
        THEN conjunct2])
  have m: "map_of [(''abc123'', ?meta)] ''abc123'' = Some ?meta" by simp
  have e: "\<not> meta_is_empty ?meta" by (simp add: meta_is_empty_def)
  have f: "find_value ?elem (case m_type ?meta of Some ty \<Rightarrow> ty | None \<Rightarrow> ''XdString'')
             = Some (''xdquantity-value'', ''12.5'')"
    by (simp add: find_value_def VALUE_ELEMENTS_def find_text_def find_def find_path_def)
  have w4: "extract_component_triple_term ''dm1'' [(''abc123'', ?meta)] ?elem
       ''abc123'' ''i-x1'' ''x1'' None ! 1
     = '':v_abc123_x1 rdf:reifies << sdc4:mc-abc123 sdc4:xdquantity-value 12.5 >> ;''"
    using T[of _ "''12.5''" "[(''abc123'', ?meta)]" "''abc123''" ?meta ?elem "''xdquantity-value''"
        "''dm1''" "''i-x1''" "''x1''" None,
        THEN conjunct2, THEN conjunct2, rule_format, OF conjI, OF m conjI, OF e f]
    by (simp add: value_literal_def)
  show ?thesis
    by (intro conjI; (rule w1 w2 w3 w4))
qed

section \<open>Unparseable input\<close>

text \<open>
  The claim as stated, that the literal of such a field is never wrapped in quotes, fails
  for a value element whose text is itself wrapped in quotes: the extractor emits the text
  as it stands, so the literal of the quoted triple is the quoted text.
\<close>

theorem native_literal_keeps_text_quotes:
  "value_literal ''XdCount'' [CHR 0x22, CHR ''4'', CHR ''2'', CHR 0x22]
     = [CHR 0x22, CHR ''4'', CHR ''2'', CHR 0x22] \<and>
   wrapped_in_quotes (value_literal ''XdCount'' [CHR 0x22, CHR ''4'', CHR ''2'', CHR 0x22]) \<and>
   extract_component_triple_term ''dm1''
       [(''abc123'', \<lparr>m_label = Some ''Population'', m_type = Some ''XdCount'', m_ct_id = None,
                       m_adapter_ctid = None, m_units = None, m_temporal_types = None,
                       m_other_keys = []\<rparr>)]
       (Element ''ms-abc123'' [] None
          [Element ''label'' [] (Some ''Population'') [],
           Element ''xdcount-value'' [] (Some [CHR 0x22, CHR ''4'', CHR ''2'', CHR 0x22]) []])
       ''abc123'' ''i-x1'' ''x1'' None ! 1
     = '':v_abc123_x1 rdf:reifies << sdc4:mc-abc123 sdc4:xdcount-value ''
         @ [CHR 0x22, CHR ''4'', CHR ''2'', CHR 0x22] @ '' >> ;''"
proof -
  let ?meta = "\<lparr>m_label = Some ''Population'', m_type = Some ''XdCount'', m_ct_id = None,
                       m_adapter_ctid = None, m_units = None, m_temporal_types = None,
                       m_other_keys = []\<rparr>"
  let ?elem = "Element ''ms-abc123'' [] None
          [Element ''label'' [] (Some ''Population'') [],
           Element ''xdcount-value'' [] (Some [CHR 0x22, CHR ''4'', CHR ''2'', CHR 0x22]) []]"
  have a: "value_literal ''XdCount'' [CHR 0x22, CHR ''4'', CHR ''2'', CHR 0x22]
     = [CHR 0x22, CHR ''4'', CHR ''2'', CHR 0x22]"
    by (simp add: value_literal_def)
  have b: "wrapped_in_quotes (value_literal ''XdCount'' [CHR 0x22, CHR ''4'', CHR ''2'', CHR 0x22])"
    by (simp add: a wrapped_in_quotes_def)
  have f: "find_value ?elem ''XdCount''
             = Some (''xdcount-value'', [CHR 0x22, CHR ''4'', CHR ''2'', CHR 0x22])"
    by (simp add: find_value_def VALUE_ELEMENTS_def find_text_def find_def find_path_def)
  have c: "extract_component_triple_term ''dm1'' [(''abc123'', ?meta)] ?elem
       ''abc123'' ''i-x1'' ''x1'' None ! 1
     = '':v_abc123_x1 rdf:reifies << sdc4:mc-abc123 sdc4:xdcount-value ''
         @ [CHR 0x22, CHR ''4'', CHR ''2'', CHR 0x22] @ '' >> ;''"
    by (simp add: extract_component_triple_term_def Let_def close_description_nth1 f a
        meta_is_empty_def del: close_description_def)
  show ?thesis by (intro conjI; (rule a b c))
qed

text \<open>
  Claim C10. When the input does not parse, the query JSON extractor returns the
  dictionary with empty metadata, empty fields and empty search_text, the clean JSON
  generator returns the empty dictionary, and the RDF extractor returns the empty string;
  each returns a value.
\<close>

theorem projections_unparseable:
  "fromstring xml_content = None \<Longrightarrow>
     json_extract fromstring float_repr xml_content
       = Inr (JObj [(''metadata'', JObj []), (''fields'', JObj []), (''search_text'', JStr [])]) \<and>
     generate field_metadata fromstring xml_content = JObj [] \<and>
     rdf_extract dm_ct_id dm_label field_metadata fromstring xml_content instance_id
       validation_status auto_corrected_fields = []"
  by (simp add: json_extract_def generate_def rdf_extract_def)

theorem projections_unparseable_witness:
  "sample_fromstring ''<a><b></a>'' = None \<and>
   json_extract sample_fromstring (\<lambda>f. f) ''<a><b></a>''
       = Inr (JObj [(''metadata'', JObj []), (''fields'', JObj []), (''search_text'', JStr [])]) \<and>
   generate [] sample_fromstring ''<a><b></a>'' = JObj [] \<and>
   rdf_extract ''dm1'' ''Model'' [] sample_fromstring ''<a><b></a>'' ''i-x1'' ''valid'' [] = []"
proof -
  have h: "sample_fromstring ''<a><b></a>'' = None"
    by (simp add: sample_fromstring_def)
  show ?thesis
    using h projections_unparseable[of sample_fromstring "''<a><b></a>''" "\<lambda>f. f" "[]" "''dm1''"
        "''Model''" "''i-x1''" "''valid''" "[]"]
    by simp
qed

section \<open>The Document Builder's claims\<close>

text \<open>
  Claim C6. For a temporal field whose \<open>temporal_types\<close> list begins with \<open>date\<close>, the
  element name is \<open>xdtemporal-date\<close>, taken from the first entry of the list, and a string
  value is cut at the first space or \<open>T\<close>, whichever comes first; the cut value, escaped,
  replaces the field's placeholder. The value \<open>2024-03-15T10:30:00\<close> gives
  \<^verbatim>\<open><xdtemporal-date>2024-03-15</xdtemporal-date>\<close>.
\<close>

theorem temporal_date_truncation:
  "(m_temporal_types meta = Some (''date'' # rest) \<longrightarrow>
      get_value_element_name ''XdTemporal'' meta = ''xdtemporal-date'') \<and>
   (s \<noteq> [] \<longrightarrow>
      format_temporal_value (PStr s) ''date''
        = takeWhile (\<lambda>c. c \<noteq> CHR '' '' \<and> c \<noteq> CHR ''T'') s) \<and>
   (m_type meta = Some ''XdTemporal'' \<and> m_temporal_types meta = Some (''date'' # rest) \<and>
    map_of form_data ct_id = Some (PStr s) \<and> s \<noteq> [] \<and> map_of metadata_dict ct_id = None
      \<longrightarrow> replace_one_field field_metadata form_data metadata_dict xml_content (ct_id, meta)
          = replace (PLACEHOLDER_PREFIX @ ''xdtemporal-date_'' @ ct_id)
              (escape_xml (takeWhile (\<lambda>c. c \<noteq> CHR '' '' \<and> c \<noteq> CHR ''T'') s)) xml_content) \<and>
   format_temporal_value (PStr ''2024-03-15T10:30:00'') ''date'' = ''2024-03-15'' \<and>
   replace_field_placeholders
       [(''abc123'', \<lparr>m_label = Some ''Visit'', m_type = Some ''XdTemporal'', m_ct_id = Some ''abc123'',
                       m_adapter_ctid = None, m_units = None, m_temporal_types = Some [''date''],
                       m_other_keys = []\<rparr>)]
       ''<xdtemporal-date>__PLACEHOLDER__xdtemporal-date_abc123</xdtemporal-date>''
       [(''abc123'', PStr ''2024-03-15T10:30:00'')] []
     = ''<xdtemporal-date>2024-03-15</xdtemporal-date>''"
proof -
  have a: "m_temporal_types meta = Some (''date'' # rest) \<longrightarrow>
      get_value_element_name ''XdTemporal'' meta = ''xdtemporal-date''"
    by (simp add: get_value_element_name_def temporal_element_map_def)
  have b: "s \<noteq> [] \<longrightarrow>
      format_temporal_value (PStr s) ''date''
        = takeWhile (\<lambda>c. c \<noteq> CHR '' '' \<and> c \<noteq> CHR ''T'') s"
    using format_date_string by simp
  have c: "m_type meta = Some ''XdTemporal'' \<and> m_temporal_types meta = Some (''date'' # rest) \<and>
    map_of form_data ct_id = Some (PStr s) \<and> s \<noteq> [] \<and> map_of metadata_dict ct_id = None
      \<longrightarrow> replace_one_field field_metadata form_data metadata_dict xml_content (ct_id, meta)
          = replace (PLACEHOLDER_PREFIX @ ''xdtemporal-date_'' @ ct_id)
              (escape_xml (takeWhile (\<lambda>c. c \<noteq> CHR '' '' \<and> c \<noteq> CHR ''T'') s)) xml_content"
    by (simp add: replace_one_field_def Let_def get_value_element_name_def temporal_element_map_def
        format_date_string replace_optional_metadata_def replace_if_def no_override_def
        replace_units_placeholder_def)
  have d: "format_temporal_value (PStr ''2024-03-15T10:30:00'') ''date'' = ''2024-03-15''"
    by (simp add: format_date_string)
  have e: "replace_field_placeholders
       [(''abc123'', \<lparr>m_label = Some ''Visit'', m_type = Some ''XdTemporal'', m_ct_id = Some ''abc123'',
                       m_adapter_ctid = None, m_units = None, m_temporal_types = Some [''date''],
                       m_other_keys = []\<rparr>)]
       ''<xdtemporal-date>__PLACEHOLDER__xdtemporal-date_abc123</xdtemporal-date>''
       [(''abc123'', PStr ''2024-03-15T10:30:00'')] []
     = ''<xdtemporal-date>2024-03-15</xdtemporal-date>''"
    by (simp add: replace_field_placeholders_def replace_one_field_def Let_def
        get_value_element_name_def temporal_element_map_def
        format_date_string replace_optional_metadata_def replace_if_def no_override_def
        replace_units_placeholder_def PLACEHOLDER_PREFIX_def replace_def escape_xml_def)
  show ?thesis
    by (intro conjI; (rule a b c d e))
qed


theorem temporal_date_truncation_witness:
  "get_value_element_name ''XdTemporal''
       \<lparr>m_label = Some ''Visit'', m_type = Some ''XdTemporal'', m_ct_id = Some ''abc123'',
         m_adapter_ctid = None, m_units = None, m_temporal_types = Some [''date'', ''datetime''],
         m_other_keys = []\<rparr> = ''xdtemporal-date'' \<and>
   format_temporal_value (PStr ''2024-03-15 10:30:00+00'') ''date'' = ''2024-03-15'' \<and>
   replace_one_field [] [(''abc123'', PStr ''2024-03-15T10:30:00'')] [] ''<a>__PLACEHOLDER__xdtemporal-date_abc123</a>''
       (''abc123'', \<lparr>m_label = Some ''Visit'', m_type = Some ''XdTemporal'', m_ct_id = Some ''abc123'',
         m_adapter_ctid = None, m_units = None, m_temporal_types = Some [''date'', ''datetime''],
         m_other_keys = []\<rparr>)
     = ''<a>2024-03-15</a>''"
proof -
  note T = temporal_date_truncation
  let ?meta = "\<lparr>m_label = Some ''Visit'', m_type = Some ''XdTemporal'', m_ct_id = Some ''abc123'',
         m_adapter_ctid = None, m_units = None, m_temporal_types = Some [''date'', ''datetime''],
         m_other_keys = []\<rparr>"
  have t: "m_temporal_types ?meta = Some (''date'' # [''datetime''])" by simp
  have w1: "get_value_element_name ''XdTemporal'' ?meta = ''xdtemporal-date''"
    by (rule T[of ?meta "[''datetime'']", THEN conjunct1, rule_format, OF t])
  have n: "''2024-03-15 10:30:00+00'' \<noteq> []" by simp
  have w2: "format_temporal_value (PStr ''2024-03-15 10:30:00+00'') ''date'' = ''2024-03-15''"
    using T[of _ _ "''2024-03-15 10:30:00+00''", THEN conjunct2, THEN conjunct1, rule_format, OF n]
    by simp
  have h: "m_type ?meta = Some ''XdTemporal'' \<and> m_temporal_types ?meta = Some (''date'' # [''datetime'']) \<and>
    map_of [(''abc123'', PStr ''2024-03-15T10:30:00'')] ''abc123'' = Some (PStr ''2024-03-15T10:30:00'') \<and>
    ''2024-03-15T10:30:00'' \<noteq> [] \<and> map_of ([] :: (string \<times> field_override) list) ''abc123'' = None"
    by simp
  have w3: "replace_one_field [] [(''abc123'', PStr ''2024-03-15T10:30:00'')] []
       ''<a>__PLACEHOLDER__xdtemporal-date_abc123</a>'' (''abc123'', ?meta)
     = ''<a>2024-03-15</a>''"
    using T[of ?meta "[''datetime'']" "''2024-03-15T10:30:00''"
        "[(''abc123'', PStr ''2024-03-15T10:30:00'')]" "''abc123''" "[]" "[]"
        "''<a>__PLACEHOLDER__xdtemporal-date_abc123</a>''",
        THEN conjunct2, THEN conjunct2, THEN conjunct1, rule_format, OF h]
    by (simp add: PLACEHOLDER_PREFIX_def replace_def escape_xml_def)
  show ?thesis
    by (intro conjI; (rule w1 w2 w3))
qed





text \<open>
  Claim C7, amended. Take a table with an \<open>XdCount\<close> field \<open>abc123\<close> and a skeleton
  such that the text with \<open>42\<close> in place of the placeholder of \<open>xdcount-value\<close> parses to
  a tree in which the component \<open>ms-abc123\<close> stays and holds the element \<open>xdcount-value\<close>
  with the text \<open>42\<close>, and in which every optional leaf element (\<open>vtb\<close>, \<open>latitude\<close> and
  the others of the optional set) still holds its placeholder, no metadata override having
  been given. Then building with the value 42 for \<open>abc123\<close> and no metadata overrides
  returns the serialised built tree; in it the component \<open>ms-abc123\<close> holds
  \<open>xdcount-value\<close> with the text \<open>42\<close>, and no \<open>vtb\<close>, \<open>latitude\<close> or other optional leaf
  element is left anywhere below the root. The units element of the component is not
  pruned: it stays in the component.
\<close>

theorem count_scenario_built:
  assumes "set (container_order env) = set OPTIONAL_CONTAINER_ELEMENTS"
    and "distinct (map fst field_metadata)"
    and "(''abc123'', meta) \<in> set field_metadata"
    and "m_type meta = Some ''XdCount''"
    and "lxml_fromstring
           (replace (PLACEHOLDER_PREFIX @ ''xdcount-value_abc123'') ''42''
              (replace_metadata_placeholders (now env) skeleton_xml instance_id)) = Some root"
    and "inside root (LElement ''ms-abc123'' a x kids)"
    and "LElement ''xdcount-value'' va (Some ''42'') vcs \<in> set kids"
    and "all_below (\<lambda>d. optional_leaf d \<longrightarrow> unpopulated_optional d) root"
  shows "build_from_form lxml_fromstring lxml_tostring env field_metadata skeleton_xml
             instance_id [(''abc123'', PInt 42)] []
           = lxml_tostring (built_tree env field_metadata [] root) \<and>
         (\<exists>comp. inside (built_tree env field_metadata [] root) comp \<and>
            ltag comp = ''ms-abc123'' \<and>
            (\<exists>v \<in> set (lchildren comp). ltag v = ''xdcount-value'' \<and> ltext v = Some ''42'') \<and>
            (\<forall>ua ux ucs. LElement ''xdcount-units'' ua ux ucs \<in> set kids \<and>
                 \<not> text_has ''<!-- Optional:'' ux
               \<longrightarrow> (\<exists>u \<in> set (lchildren comp). ltag u = ''xdcount-units'' \<and> ltext u = ux))) \<and>
         all_below (\<lambda>d. \<not> optional_leaf d) (built_tree env field_metadata [] root)"
proof -
  let ?c = "LElement ''ms-abc123'' a x kids"
  let ?v = "LElement ''xdcount-value'' va (Some ''42'') vcs"
  let ?X = "replace_metadata_placeholders (now env) skeleton_xml instance_id"
  have o: "set (container_order env) \<subseteq> set OPTIONAL_CONTAINER_ELEMENTS" using assms(1) by simp
  have sp: "replace_field_placeholders field_metadata ?X [(''abc123'', PInt 42)] []
      = replace (PLACEHOLDER_PREFIX @ ''xdcount-value_abc123'') ''42'' ?X"
    using count_string_phase[OF assms(2) assms(3) assms(4), of ?X] by simp
  have bt: "built_tree env field_metadata [] root = process_tree env [] root"
    by (simp add: built_tree_def build_ev_map_nil)
  have a: "build_from_form lxml_fromstring lxml_tostring env field_metadata skeleton_xml
             instance_id [(''abc123'', PInt 42)] []
           = lxml_tostring (built_tree env field_metadata [] root)"
    unfolding build_from_form_def process_ev_and_prune_def sp bt
    using assms(5) by (simp add: build_ev_map_nil)
  have sc: "stays ?c" using inside_stays[OF assms(6)] .
  have sr: "stays root" using assms(6) by (cases rule: inside.cases) auto
  have sv: "stays ?v"
    by (simp add: text_has_def OPTIONAL_CONTAINER_ELEMENTS_def OPTIONAL_ELEMENTS_def
        REQUIRED_ELEMENTS_def localname_def)
  have i: "inside (process_tree env [] root) (process_tree env [] ?c)"
    using pt_inside[OF o assms(6)] .
  have tg: "ltag (process_tree env [] ?c) = ''ms-abc123''" using pt_shape[OF sc, of env "[]"] by simp
  have vin: "?v \<in> set (lchildren ?c)" using assms(7) by simp
  have v1: "process_tree env [] ?v \<in> set (lchildren (process_tree env [] ?c))"
    by (rule pt_child[OF o sc vin sv])
  have v2: "ltag (process_tree env [] ?v) = ''xdcount-value'' \<and>
            ltext (process_tree env [] ?v) = Some ''42''"
    using pt_shape[OF sv, of env "[]"] by simp
  have u: "\<exists>u \<in> set (lchildren (process_tree env [] ?c)). ltag u = ''xdcount-units'' \<and> ltext u = ux"
    if h: "LElement ''xdcount-units'' ua ux ucs \<in> set kids \<and> \<not> text_has ''<!-- Optional:'' ux"
    for ua ux ucs
  proof -
    let ?u = "LElement ''xdcount-units'' ua ux ucs"
    have su: "stays ?u" using units_element_stays h by blast
    have uin: "?u \<in> set (lchildren ?c)" using h by simp
    have "process_tree env [] ?u \<in> set (lchildren (process_tree env [] ?c))"
      by (rule pt_child[OF o sc uin su])
    moreover have "ltag (process_tree env [] ?u) = ''xdcount-units'' \<and>
        ltext (process_tree env [] ?u) = ux"
      using pt_shape[OF su, of env "[]"] by simp
    ultimately show ?thesis by blast
  qed
  have b: "\<exists>comp. inside (built_tree env field_metadata [] root) comp \<and>
            ltag comp = ''ms-abc123'' \<and>
            (\<exists>v \<in> set (lchildren comp). ltag v = ''xdcount-value'' \<and> ltext v = Some ''42'') \<and>
            (\<forall>ua ux ucs. LElement ''xdcount-units'' ua ux ucs \<in> set kids \<and>
                 \<not> text_has ''<!-- Optional:'' ux
               \<longrightarrow> (\<exists>u \<in> set (lchildren comp). ltag u = ''xdcount-units'' \<and> ltext u = ux))"
    unfolding bt
    apply (rule exI[of _ "process_tree env [] ?c"])
    using i tg v1 v2 u by blast
  have nr: "\<not> unpopulated_optional root"
    using sr by (cases root) auto
  have c: "all_below (\<lambda>d. \<not> optional_leaf d) (built_tree env field_metadata [] root)"
    unfolding bt by (rule pt_none[OF nr assms(8)])
  show ?thesis by (intro conjI; (rule a b c))
qed

theorem count_scenario_built_witness:
  "set (container_order sample_env) = set OPTIONAL_CONTAINER_ELEMENTS \<and>
   map_of [(sample_count_xml ''42'',
            sample_count_doc ''__PLACEHOLDER__label_u1'' ''__PLACEHOLDER__xdstring-value_u1'')]
       (replace (PLACEHOLDER_PREFIX @ ''xdcount-value_abc123'') ''42''
          (replace_metadata_placeholders (now sample_env)
             (sample_count_xml ''__PLACEHOLDER__xdcount-value_abc123'') ''i-1''))
     = Some (sample_count_doc ''__PLACEHOLDER__label_u1'' ''__PLACEHOLDER__xdstring-value_u1'') \<and>
   inside (sample_count_doc ''__PLACEHOLDER__label_u1'' ''__PLACEHOLDER__xdstring-value_u1'')
     (LElement ''ms-abc123'' [] None
          [LElement ''label'' [] (Some ''Population'') [],
           LElement ''xdcount-value'' [] (Some ''42'') [],
           LElement ''xdcount-units'' [] None
             [LElement ''label'' [] (Some ''__PLACEHOLDER__label_u1'') [],
              LElement ''xdstring-value'' [] (Some ''__PLACEHOLDER__xdstring-value_u1'') []],
           LElement ''vtb'' [] (Some ''__PLACEHOLDER__vtb_abc123'') [],
           LElement ''latitude'' [] (Some ''__PLACEHOLDER__latitude_abc123'') [],
           LElement ''ev-placeholder'' [(''ct_id'', ''abc123'')] None []]) \<and>
   all_below (\<lambda>d. optional_leaf d \<longrightarrow> unpopulated_optional d)
     (sample_count_doc ''__PLACEHOLDER__label_u1'' ''__PLACEHOLDER__xdstring-value_u1'') \<and>
   build_from_form
       (map_of [(sample_count_xml ''42'',
                 sample_count_doc ''__PLACEHOLDER__label_u1'' ''__PLACEHOLDER__xdstring-value_u1'')])
       sample_tostring sample_env [(''abc123'', sample_count_meta)]
       (sample_count_xml ''__PLACEHOLDER__xdcount-value_abc123'') ''i-1''
       [(''abc123'', PInt 42)] []
     = sample_tostring
         (built_tree sample_env [(''abc123'', sample_count_meta)] []
            (sample_count_doc ''__PLACEHOLDER__label_u1'' ''__PLACEHOLDER__xdstring-value_u1'')) \<and>
   (\<exists>comp. inside (built_tree sample_env [(''abc123'', sample_count_meta)] []
                (sample_count_doc ''__PLACEHOLDER__label_u1'' ''__PLACEHOLDER__xdstring-value_u1'')) comp \<and>
      ltag comp = ''ms-abc123'' \<and>
      (\<exists>v \<in> set (lchildren comp). ltag v = ''xdcount-value'' \<and> ltext v = Some ''42'') \<and>
      (\<exists>u \<in> set (lchildren comp). ltag u = ''xdcount-units'' \<and> ltext u = None)) \<and>
   all_below (\<lambda>d. \<not> optional_leaf d)
     (built_tree sample_env [(''abc123'', sample_count_meta)] []
        (sample_count_doc ''__PLACEHOLDER__label_u1'' ''__PLACEHOLDER__xdstring-value_u1''))"
proof -
  let ?units = "LElement ''xdcount-units'' [] None
             [LElement ''label'' [] (Some ''__PLACEHOLDER__label_u1'') [],
              LElement ''xdstring-value'' [] (Some ''__PLACEHOLDER__xdstring-value_u1'') []]"
  let ?kids = "[LElement ''label'' [] (Some ''Population'') [],
           LElement ''xdcount-value'' [] (Some ''42'') [],
           ?units,
           LElement ''vtb'' [] (Some ''__PLACEHOLDER__vtb_abc123'') [],
           LElement ''latitude'' [] (Some ''__PLACEHOLDER__latitude_abc123'') [],
           LElement ''ev-placeholder'' [(''ct_id'', ''abc123'')] None []]"
  let ?c = "LElement ''ms-abc123'' [] None ?kids"
  let ?root = "sample_count_doc ''__PLACEHOLDER__label_u1'' ''__PLACEHOLDER__xdstring-value_u1''"
  let ?fm = "[(''abc123'', sample_count_meta)]"
  let ?parse = "map_of [(sample_count_xml ''42'', ?root)]"
  have h1: "set (container_order sample_env) = set OPTIONAL_CONTAINER_ELEMENTS"
    by (simp add: sample_env_def)
  have h2: "distinct (map fst ?fm)" by simp
  have h3: "(''abc123'', sample_count_meta) \<in> set ?fm" by simp
  have h4: "m_type sample_count_meta = Some ''XdCount''" by (simp add: sample_count_meta_def)
  have h5: "?parse (replace (PLACEHOLDER_PREFIX @ ''xdcount-value_abc123'') ''42''
          (replace_metadata_placeholders (now sample_env)
             (sample_count_xml ''__PLACEHOLDER__xdcount-value_abc123'') ''i-1'')) = Some ?root"
    by (simp only: sample_count_substituted) simp
  have ic: "inside ?c ?c"
    by (rule inside.here) (simp add: text_has_def OPTIONAL_CONTAINER_ELEMENTS_def)
  have h6: "inside ?root ?c"
    unfolding sample_count_doc_def
    by (rule inside.below[OF _ _ ic]) (simp_all add: text_has_def OPTIONAL_CONTAINER_ELEMENTS_def)
  have h7: "LElement ''xdcount-value'' [] (Some ''42'') [] \<in> set ?kids" by simp
  have h8: "all_below (\<lambda>d. optional_leaf d \<longrightarrow> unpopulated_optional d) ?root"
    by (simp add: sample_count_doc_def text_has_def localname_def OPTIONAL_ELEMENTS_def
        PLACEHOLDER_PREFIX_def)
  note T = count_scenario_built[where lxml_tostring = sample_tostring
      and lxml_fromstring = ?parse and env = sample_env and field_metadata = ?fm
      and meta = sample_count_meta and root = ?root and instance_id = "''i-1''"
      and skeleton_xml = "sample_count_xml ''__PLACEHOLDER__xdcount-value_abc123''",
      OF h1 h2 h3 h4 h5 h6 h7 h8]
  have un: "?units \<in> set ?kids \<and> \<not> text_has ''<!-- Optional:'' None"
    by (simp add: text_has_def)
  from T[THEN conjunct2, THEN conjunct1] obtain comp where
    comp: "inside (built_tree sample_env ?fm [] ?root) comp"
      "ltag comp = ''ms-abc123''"
      "\<exists>v \<in> set (lchildren comp). ltag v = ''xdcount-value'' \<and> ltext v = Some ''42''"
      "\<forall>ua ux ucs. LElement ''xdcount-units'' ua ux ucs \<in> set ?kids \<and>
                 \<not> text_has ''<!-- Optional:'' ux
               \<longrightarrow> (\<exists>u \<in> set (lchildren comp). ltag u = ''xdcount-units'' \<and> ltext u = ux)"
    by blast
  have "\<exists>u \<in> set (lchildren comp). ltag u = ''xdcount-units'' \<and> ltext u = None"
    using comp(4) un by blast
  then have w2: "\<exists>comp. inside (built_tree sample_env ?fm [] ?root) comp \<and>
      ltag comp = ''ms-abc123'' \<and>
      (\<exists>v \<in> set (lchildren comp). ltag v = ''xdcount-value'' \<and> ltext v = Some ''42'') \<and>
      (\<exists>u \<in> set (lchildren comp). ltag u = ''xdcount-units'' \<and> ltext u = None)"
    using comp(1,2,3) by blast
  have w1: "build_from_form ?parse sample_tostring sample_env ?fm
       (sample_count_xml ''__PLACEHOLDER__xdcount-value_abc123'') ''i-1''
       [(''abc123'', PInt 42)] []
     = sample_tostring (built_tree sample_env ?fm [] ?root)"
    by (rule T[THEN conjunct1])
  have w3: "all_below (\<lambda>d. \<not> optional_leaf d) (built_tree sample_env ?fm [] ?root)"
    by (rule T[THEN conjunct2, THEN conjunct2])
  show ?thesis
    by (intro conjI; (rule h1 h5 h6 h8 w1 w2 w3))
qed

text \<open>
  The claim as stated fails for the units element: it is not in the optional-leaf set, so
  the pruning pass leaves it in the component with its two placeholders, while \<open>vtb\<close>
  and \<open>latitude\<close> are removed.
\<close>

theorem units_element_not_pruned:
  "build_from_form
       (map_of [(sample_count_xml ''42'',
                 sample_count_doc ''__PLACEHOLDER__label_u1'' ''__PLACEHOLDER__xdstring-value_u1'')])
       sample_tostring sample_env [(''abc123'', sample_count_meta)]
       (sample_count_xml ''__PLACEHOLDER__xdcount-value_abc123'') ''i-1''
       [(''abc123'', PInt 42)] []
     = sample_tostring
         (LElement ''dm-d1'' [] None
            [LElement ''ms-abc123'' [] None
               [LElement ''label'' [] (Some ''Population'') [],
                LElement ''xdcount-value'' [] (Some ''42'') [],
                LElement ''xdcount-units'' [] None
                  [LElement ''label'' [] (Some ''__PLACEHOLDER__label_u1'') [],
                   LElement ''xdstring-value'' [] (Some ''__PLACEHOLDER__xdstring-value_u1'') []]]])"
proof -
  have s: "replace_field_placeholders [(''abc123'', sample_count_meta)]
       (replace_metadata_placeholders (now sample_env)
          (sample_count_xml ''__PLACEHOLDER__xdcount-value_abc123'') ''i-1'')
       [(''abc123'', PInt 42)] []
     = sample_count_xml ''42''"
    using count_string_phase[of "[(''abc123'', sample_count_meta)]" "''abc123''" sample_count_meta
        "replace_metadata_placeholders (now sample_env)
          (sample_count_xml ''__PLACEHOLDER__xdcount-value_abc123'') ''i-1''"]
      sample_count_substituted
    by (simp add: sample_count_meta_def)
  show ?thesis
    unfolding build_from_form_def process_ev_and_prune_def s
    by (simp add: build_ev_map_nil sample_count_tree)
qed

section \<open>Round trip through the JSON projections\<close>

text \<open>
  Claim C2 says that both JSON projections report every supplied field value. For a
  quantified field with units the query-oriented extractor does not: it tries the value
  element names in the order of \<open>VALUE_ELEMENT_NAMES\<close>, which begins with
  \<open>xdstring-value\<close>, among all descendants of the component, and so finds the
  \<open>xdstring-value\<close> of the units element before the \<open>xdcount-value\<close> of the field.
  Built with the value 42 and the units \<open>people\<close>, the document is reported with the value
  \<open>people\<close> by the extractor, and with the value 42 by the instance generator, which
  looks for the element named by the field type.
\<close>

theorem query_json_reports_units_as_value:
  "replace_field_placeholders [(''abc123'', sample_count_meta)]
       (''<xdcount-value>__PLACEHOLDER__xdcount-value_abc123</xdcount-value>'' @
        ''<xdcount-units><label>__PLACEHOLDER__label_u1</label>'' @
        ''<xdstring-value>__PLACEHOLDER__xdstring-value_u1</xdstring-value></xdcount-units>'')
       [(''abc123'', PInt 42)] [(''abc123'', no_override\<lparr>o_units := Some ''people''\<rparr>)]
     = ''<xdcount-value>42</xdcount-value>'' @
        ''<xdcount-units><label>Unit</label>'' @
        ''<xdstring-value>people</xdstring-value></xdcount-units>'' \<and>
   read_back (built_tree sample_env [(''abc123'', sample_count_meta)]
                [(''abc123'', no_override\<lparr>o_units := Some ''people''\<rparr>)]
                (sample_count_doc ''Unit'' ''people''))
     = [sample_count_etree] \<and>
   extract_fields_recursive (\<lambda>f. f) sample_count_etree ([], [])
     = Inr ([(''abc123'', JObj [(''label'', JStr ''Population''), (''value'', JStr ''people'')])],
            [''people'', ''Population'']) \<and>
   gen_extract_fields [(''abc123'', sample_count_meta)] sample_count_etree
     = [(''Population'', JObj [(''value'', JInt 42), (''units'', JStr ''people'')])]"
proof -
  have a: "replace_field_placeholders [(''abc123'', sample_count_meta)]
       (''<xdcount-value>__PLACEHOLDER__xdcount-value_abc123</xdcount-value>'' @
        ''<xdcount-units><label>__PLACEHOLDER__label_u1</label>'' @
        ''<xdstring-value>__PLACEHOLDER__xdstring-value_u1</xdstring-value></xdcount-units>'')
       [(''abc123'', PInt 42)] [(''abc123'', no_override\<lparr>o_units := Some ''people''\<rparr>)]
     = ''<xdcount-value>42</xdcount-value>'' @
        ''<xdcount-units><label>Unit</label>'' @
        ''<xdstring-value>people</xdstring-value></xdcount-units>''"
    by (simp add: replace_field_placeholders_def replace_one_field_def Let_def sample_count_meta_def
        get_value_element_name_def type_map_def replace_optional_metadata_def replace_if_def
        no_override_def replace_units_placeholder_def PLACEHOLDER_PREFIX_def replace_def
        string_of_int_42 escape_xml_def lower_def lower_char_def units_is_empty_def
        meta_is_empty_def)
  have b: "read_back (built_tree sample_env [(''abc123'', sample_count_meta)]
                [(''abc123'', no_override\<lparr>o_units := Some ''people''\<rparr>)]
                (sample_count_doc ''Unit'' ''people''))
     = [sample_count_etree]"
    by (simp add: built_tree_def build_ev_map_def process_tree_def sample_count_doc_def
        sample_env_def sample_count_meta_def no_override_def text_has_def Let_def localname_def
        PLACEHOLDER_PREFIX_def REQUIRED_ELEMENTS_def OPTIONAL_ELEMENTS_def
        OPTIONAL_CONTAINER_ELEMENTS_def prune_empty_containers_def sample_count_etree_def)
  have c: "extract_fields_recursive (\<lambda>f. f) sample_count_etree ([], [])
     = Inr ([(''abc123'', JObj [(''label'', JStr ''Population''), (''value'', JStr ''people'')])],
            [''people'', ''Population''])"
    by (simp add: sample_count_etree_def visit_field_def strip_namespace_def has_value_def
        VALUE_ELEMENT_NAMES_def find_def find_path_def extract_field_def find_text_def
        parse_value_def lower_def lower_char_def py_int_def strip_def is_space_def digit_val_def
        py_float_def unsigned_float_def is_mantissa_def is_digits_def Let_def)
  have d: "gen_extract_fields [(''abc123'', sample_count_meta)] sample_count_etree
     = [(''Population'', JObj [(''value'', JInt 42), (''units'', JStr ''people'')])]"
    by (simp add: gen_extract_fields_def sample_count_etree_def strip_namespace_def Let_def
        replace_def sample_count_meta_def gen_extract_field_data_def gen_extract_ev_def
        EV_CODE_LIST_def gen_extract_value_def VALUE_ELEMENTS_def find_text_def find_def
        find_path_def PLACEHOLDER_PREFIX_def gen_parse_value_def py_int_def strip_def
        is_space_def digit_val_def gen_extract_units_value_def units_elem_names_def)
  show ?thesis by (intro conjI; (rule a b c d))
qed

end
